theory Spec2Isabelle
  imports Complex_Main
begin

unbundle bit_operations_syntax

section \<open>Values\<close>

text \<open>
  The exceptions the loop body can raise by itself: indexing an eye outline that is too
  short, and \<^verbatim>\<open>sum(ear_buffer) / len(ear_buffer)\<close> on an empty buffer (int by int).
\<close>

datatype py_error = IndexError | ZeroDivisionError

text \<open>
  The ratios are numpy float64 scalars (\<^verbatim>\<open>scipy.spatial.distance.euclidean\<close> returns
  one). A finite value is modelled by the real number it stands for (rounding is not
  modelled); the three non-finite values are kept apart, since numpy's division by zero
  returns them instead of raising.
\<close>

datatype f64 = Fin real | PInf | NInf | NaN

fun f64_add :: "f64 \<Rightarrow> f64 \<Rightarrow> f64" where
  "f64_add NaN _ = NaN"
| "f64_add _ NaN = NaN"
| "f64_add PInf NInf = NaN"
| "f64_add NInf PInf = NaN"
| "f64_add PInf _ = PInf"
| "f64_add _ PInf = PInf"
| "f64_add NInf _ = NInf"
| "f64_add _ NInf = NInf"
| "f64_add (Fin a) (Fin b) = Fin (a + b)"

text \<open>Division of a float64 by a finite divisor (every divisor of the program is finite).\<close>

fun f64_div :: "f64 \<Rightarrow> real \<Rightarrow> f64" where
  "f64_div (Fin a) b =
     (if b \<noteq> 0 then Fin (a / b)
      else if a = 0 then NaN
      else if 0 < a then PInf
      else NInf)"
| "f64_div PInf b = (if 0 \<le> b then PInf else NInf)"
| "f64_div NInf b = (if 0 \<le> b then NInf else PInf)"
| "f64_div NaN b = NaN"

text \<open>\<^verbatim>\<open>x < t\<close> and \<^verbatim>\<open>x > t\<close> for a float64 \<open>x\<close> and a finite \<open>t\<close>; both are false on NaN.\<close>

fun f64_lt :: "f64 \<Rightarrow> real \<Rightarrow> bool" where
  "f64_lt (Fin a) t = (a < t)"
| "f64_lt PInf t = False"
| "f64_lt NInf t = True"
| "f64_lt NaN t = False"

fun f64_gt :: "f64 \<Rightarrow> real \<Rightarrow> bool" where
  "f64_gt (Fin a) t = (t < a)"
| "f64_gt PInf t = True"
| "f64_gt NInf t = False"
| "f64_gt NaN t = False"

fun is_finite :: "f64 \<Rightarrow> bool" where
  "is_finite (Fin a) = True"
| "is_finite _ = False"

section \<open>Configuration and global state (main.py 17-30, xbox.py 13-20)\<close>

record config =
  EAR_THRESHOLD :: real
  SMOOTHING_WINDOW :: nat
  MIN_CLOSE_DURATION :: real

definition default_config :: config where
  "default_config =
     \<lparr>EAR_THRESHOLD = 0.25, SMOOTHING_WINDOW = 5, MIN_CLOSE_DURATION = 0.10\<rparr>"

text \<open>\<open>blink_state\<close>: 0 = open, 1 = closed, as the source's comment has it.\<close>

record state =
  blink_state :: int
  close_start_time :: "real option"
  blink_count :: int
  ear_buffer :: "f64 list"

definition initial_state :: state where
  "initial_state =
     \<lparr>blink_state = 0, close_start_time = None, blink_count = 0, ear_buffer = []\<rparr>"

section \<open>calculate_ear (main.py 55-64, xbox.py 38-43)\<close>

type_synonym point = "int \<times> int"

definition euclidean :: "point \<Rightarrow> point \<Rightarrow> real" where
  "euclidean p q = sqrt (real_of_int ((fst p - fst q)\<^sup>2 + (snd p - snd q)\<^sup>2))"

definition calculate_ear :: "point list \<Rightarrow> py_error + f64" where
  "calculate_ear eye =
     (if length eye < 6 then Inl IndexError
      else
        let A = euclidean (eye ! 1) (eye ! 5);
            B = euclidean (eye ! 2) (eye ! 4);
            C = euclidean (eye ! 0) (eye ! 3)
        in Inr (f64_div (Fin (A + B)) (2.0 * C)))"

section \<open>The smoothing buffer: deque(maxlen=SMOOTHING_WINDOW)\<close>

text \<open>
  \<^verbatim>\<open>deque.append\<close> with a maximum length: a full deque drops its leftmost element
  first; a deque of maximum length 0 stays empty.
\<close>

definition deque_append :: "nat \<Rightarrow> 'a list \<Rightarrow> 'a \<Rightarrow> 'a list" where
  "deque_append maxlen buf x =
     (if maxlen = 0 then buf
      else if length buf = maxlen then tl buf @ [x]
      else buf @ [x])"

text \<open>\<^verbatim>\<open>sum(ear_buffer)\<close>: a left fold from 0.\<close>

definition py_sum :: "f64 list \<Rightarrow> f64" where
  "py_sum buf = foldl f64_add (Fin 0) buf"

text \<open>\<^verbatim>\<open>sum(ear_buffer) / len(ear_buffer)\<close> on a buffer that is not empty.\<close>

definition smoothed :: "f64 list \<Rightarrow> f64" where
  "smoothed buf = f64_div (py_sum buf) (real (length buf))"

section \<open>The per-face update (main.py 84-115, xbox.py 71-91)\<close>

text \<open>
  The rise-and-fall logic on the smoothed ratio; \<open>now\<close> is what \<^verbatim>\<open>time.time()\<close>
  returns in the branch that is taken.
\<close>

definition rise_and_fall :: "config \<Rightarrow> real \<Rightarrow> f64 \<Rightarrow> state \<Rightarrow> state" where
  "rise_and_fall cfg now smoothed_ear st =
     (if f64_lt smoothed_ear (EAR_THRESHOLD cfg) \<and> blink_state st = 0 then
        st\<lparr>blink_state := 1, close_start_time := Some now\<rparr>
      else if f64_gt smoothed_ear (EAR_THRESHOLD cfg) \<and> blink_state st = 1 then
        let st1 = st\<lparr>blink_state := 0\<rparr>;
            st2 = (case close_start_time st1 of
                     None \<Rightarrow> st1
                   | Some t0 \<Rightarrow>
                       let close_duration = now - t0
                       in if close_duration \<ge> MIN_CLOSE_DURATION cfg
                          then st1\<lparr>blink_count := blink_count st1 + 1\<rparr>
                          else st1)
        in st2\<lparr>close_start_time := None\<rparr>
      else st)"

text \<open>
  The landmark predictor's result: \<open>landmarks i\<close> is \<^verbatim>\<open>(part(i).x, part(i).y)\<close>.
\<close>

type_synonym landmarks = "nat \<Rightarrow> point"

text \<open>main.py 87-93: the two eye outlines of a face and the average of their ratios.\<close>

definition face_avg_ear :: "landmarks \<Rightarrow> py_error + f64" where
  "face_avg_ear landmarks =
     (let left_eye = map landmarks [36..<42];
          right_eye = map landmarks [42..<48]
      in case calculate_ear left_eye of
           Inl e \<Rightarrow> Inl e
         | Inr left_ear \<Rightarrow>
          (case calculate_ear right_eye of
             Inl e \<Rightarrow> Inl e
           | Inr right_ear \<Rightarrow> Inr (f64_div (f64_add left_ear right_ear) 2.0)))"

text \<open>main.py 84-115: the body of the loop over the faces, for one face.\<close>

definition process_face :: "config \<Rightarrow> landmarks \<times> real \<Rightarrow> state \<Rightarrow> py_error + state" where
  "process_face cfg face st =
     (let landmarks = fst face; now = snd face
      in case face_avg_ear landmarks of
           Inl e \<Rightarrow> Inl e
         | Inr avg_ear \<Rightarrow>
             let buf = deque_append (SMOOTHING_WINDOW cfg) (ear_buffer st) avg_ear
             in if buf = [] then Inl ZeroDivisionError
                else Inr (rise_and_fall cfg now (smoothed buf) (st\<lparr>ear_buffer := buf\<rparr>)))"

text \<open>\<^verbatim>\<open>for face in faces\<close>: an exception ends the loop.\<close>

fun process_faces :: "config \<Rightarrow> (landmarks \<times> real) list \<Rightarrow> state \<Rightarrow> py_error + state" where
  "process_faces cfg [] st = Inr st"
| "process_faces cfg (face # faces) st =
     (case process_face cfg face st of
        Inl e \<Rightarrow> Inl e
      | Inr st' \<Rightarrow> process_faces cfg faces st')"

section \<open>Rendering\<close>

definition digit_char :: "nat \<Rightarrow> char" where
  "digit_char d = ''0123456789'' ! d"

fun str_nat :: "nat \<Rightarrow> string" where
  "str_nat n = (if n < 10 then [digit_char n] else str_nat (n div 10) @ [digit_char (n mod 10)])"

declare str_nat.simps [simp del]

text \<open>\<^verbatim>\<open>str\<close> of a Python int.\<close>

definition str_int :: "int \<Rightarrow> string" where
  "str_int i = (if i < 0 then ''-'' @ str_nat (nat (- i)) else str_nat (nat i))"

text \<open>\<^verbatim>\<open>str\<close> of the cursor position, a tuple of two ints.\<close>

definition str_coords :: "point \<Rightarrow> string" where
  "str_coords c = ''('' @ str_int (fst c) @ '', '' @ str_int (snd c) @ '')''"

text \<open>
  The format \<^verbatim>\<open>:.2f\<close> of a finite float, \<open>x\<close> being the exact value the float
  stands for: the value rounded to the nearest hundredth, a tie going to the even one,
  with the sign of the value and two digits after the point. (A float is a dyadic
  rational, so ties arise only at values such as 0.125; the sign of a negative zero is
  not modelled.)
\<close>

definition round_half_even :: "real \<Rightarrow> int" where
  "round_half_even y =
     (let n = \<lfloor>y\<rfloor>; d = y - of_int n
      in if d < 1/2 then n else if 1/2 < d then n + 1 else if even n then n else n + 1)"

definition format_2f :: "real \<Rightarrow> string" where
  "format_2f x =
     (let n = nat (round_half_even (\<bar>x\<bar> * 100))
      in (if x < 0 then ''-'' else '''') @ str_nat (n div 100) @ ''.''
         @ [digit_char (n mod 100 div 10), digit_char (n mod 10)])"

section \<open>Sampling the action\<close>

definition VK_LBUTTON :: int where "VK_LBUTTON = 0x01"
definition VK_RBUTTON :: int where "VK_RBUTTON = 0x02"
definition VK_SHIFT :: int where "VK_SHIFT = 0x10"
definition VK_CONTROL :: int where "VK_CONTROL = 0x11"
definition VK_MENU :: int where "VK_MENU = 0x12"
definition VK_ESCAPE :: int where "VK_ESCAPE = 0x1B"
definition VK_SPACE :: int where "VK_SPACE = 0x20"

text \<open>\<^verbatim>\<open>key_map\<close> (main.py 37-53) in the order \<^verbatim>\<open>key_map.items()\<close> enumerates it.\<close>

definition key_map :: "(int \<times> string) list" where
  "key_map =
     [(0x57, ''W''), (0x41, ''A''), (0x53, ''S''), (0x44, ''D''), (0x52, ''R''), (0x43, ''C''),
      (VK_SHIFT, ''Shift''), (VK_CONTROL, ''Ctrl''), (VK_MENU, ''Alt''), (VK_SPACE, ''Space''),
      (VK_ESCAPE, ''Esc''), (0x31, ''1''), (0x32, ''2''), (0x33, ''3''), (0x34, ''4'')]"

text \<open>
  main.py 126-139. \<open>get_key_state\<close> is \<^verbatim>\<open>win32api.GetKeyState\<close>; the loop over the
  key map has no \<^verbatim>\<open>break\<close>, every pressed key overwrites \<open>action\<close>.
\<close>

fun scan_keys :: "(int \<Rightarrow> int) \<Rightarrow> string \<Rightarrow> (int \<times> string) list \<Rightarrow> string" where
  "scan_keys get_key_state action [] = action"
| "scan_keys get_key_state action ((vk, name) # rest) =
     (if get_key_state vk < 0 then scan_keys get_key_state name rest
      else scan_keys get_key_state action rest)"

definition sample_action :: "(int \<Rightarrow> int) \<Rightarrow> string" where
  "sample_action get_key_state =
     (if get_key_state VK_LBUTTON < 0 then ''Left Click''
      else if get_key_state VK_RBUTTON < 0 then ''Right Click''
      else scan_keys get_key_state ''None'' key_map)"

text \<open>\<^verbatim>\<open>controller_map\<close> (xbox.py 25-36) in its enumeration order.\<close>

definition controller_map :: "(nat \<times> string) list" where
  "controller_map =
     [(0, ''A''), (1, ''B''), (2, ''X''), (3, ''Y''), (8, ''LB''), (9, ''RB''),
      (10, ''LT''), (11, ''RT''), (12, ''L3''), (13, ''R3'')]"

text \<open>xbox.py 119-123: the loop over the buttons stops at the first one held down.\<close>

fun scan_buttons :: "(nat \<Rightarrow> bool) \<Rightarrow> string \<Rightarrow> (nat \<times> string) list \<Rightarrow> string" where
  "scan_buttons get_button action [] = action"
| "scan_buttons get_button action ((button_id, name) # rest) =
     (if get_button button_id then name else scan_buttons get_button action rest)"

definition sample_button :: "(nat \<Rightarrow> bool) \<Rightarrow> string" where
  "sample_button get_button = scan_buttons get_button ''None'' controller_map"

section \<open>The frame loop of each variant\<close>

text \<open>
  What one iteration reads from outside: the result of \<^verbatim>\<open>cap.read()\<close>, the landmarks
  of each detected face with the clock reading of its update, the formatted timestamp
  and the key code \<^verbatim>\<open>cv2.waitKey(1)\<close> returns.
\<close>

record frame_input =
  ret :: bool
  faces :: "(landmarks \<times> real) list"
  timestamp :: string
  wait_key :: int

record main_input = frame_input +
  cursor_pos :: point
  get_key_state :: "int \<Rightarrow> int"

text \<open>
  For the gamepad variant \<open>get_axis\<close> and \<open>get_button\<close> are the joystick's queries,
  taken to answer for every axis and button the loop asks for.
\<close>

record xbox_input = frame_input +
  get_axis :: "nat \<Rightarrow> real"
  get_button :: "nat \<Rightarrow> bool"

text \<open>
  The globals together with what the run does to the outside: the lines written to the
  log file, the number of \<^verbatim>\<open>cap.read()\<close> calls, the lines printed.
\<close>

record world =
  globals :: state
  log_file :: "string list"
  frames_read :: nat
  stdout :: "string list"

definition initial_world :: world where
  "initial_world = \<lparr>globals = initial_state, log_file = [], frames_read = 0, stdout = []\<rparr>"

definition quit_pressed :: "int \<Rightarrow> bool" where
  "quit_pressed k = (k AND 0xFF = 113)"

definition main_record :: "main_input \<Rightarrow> string \<Rightarrow> int \<Rightarrow> string" where
  "main_record inp action count =
     timestamp inp @ '' - '' @ str_coords (cursor_pos inp) @ '' - '' @ action @ '' - ''
       @ str_int count @ [CHR 0x0A]"

text \<open>
  One pass through the body of \<^verbatim>\<open>while True\<close> in main.py (73-153); the flag returned
  says whether the loop goes on.
\<close>

definition main_iteration :: "config \<Rightarrow> main_input \<Rightarrow> world \<Rightarrow> py_error + (bool \<times> world)" where
  "main_iteration cfg inp w =
     (let w0 = w\<lparr>frames_read := frames_read w + 1\<rparr>
      in if \<not> ret inp then Inr (False, w0)
         else case process_faces cfg (faces inp) (globals w0) of
                Inl e \<Rightarrow> Inl e
              | Inr st \<Rightarrow>
                  let action = sample_action (get_key_state inp);
                      line = main_record inp action (blink_count st);
                      w1 = w0\<lparr>globals := st, log_file := log_file w0 @ [line]\<rparr>
                  in Inr (\<not> quit_pressed (wait_key inp), w1))"

text \<open>
  The loop over the inputs of successive iterations. When the inputs given are used up
  the loop is still running: the flag is True and the world is the one reached so far.
\<close>

fun main_loop :: "config \<Rightarrow> main_input list \<Rightarrow> world \<Rightarrow> py_error + (bool \<times> world)" where
  "main_loop cfg [] w = Inr (True, w)"
| "main_loop cfg (inp # inps) w =
     (case main_iteration cfg inp w of
        Inl e \<Rightarrow> Inl e
      | Inr (continue, w') \<Rightarrow> if continue then main_loop cfg inps w' else Inr (False, w'))"

definition xbox_record :: "xbox_input \<Rightarrow> string \<Rightarrow> int \<Rightarrow> string" where
  "xbox_record inp action count =
     (let l3_x = get_axis inp 0; l3_y = get_axis inp 1;
          r3_x = get_axis inp 4; r3_y = get_axis inp 5
      in timestamp inp @ '' - ''
         @ ''('' @ format_2f l3_x @ '', '' @ format_2f l3_y @ '') - ''
         @ ''('' @ format_2f r3_x @ '', '' @ format_2f r3_y @ '') - ''
         @ action @ '' - '' @ str_int count @ [CHR 0x0A])"

text \<open>One pass through the body of \<^verbatim>\<open>while True\<close> in xbox.py (62-145).\<close>

definition xbox_iteration :: "config \<Rightarrow> xbox_input \<Rightarrow> world \<Rightarrow> py_error + (bool \<times> world)" where
  "xbox_iteration cfg inp w =
     (let w0 = w\<lparr>frames_read := frames_read w + 1\<rparr>
      in if \<not> ret inp then Inr (False, w0)
         else case process_faces cfg (faces inp) (globals w0) of
                Inl e \<Rightarrow> Inl e
              | Inr st \<Rightarrow>
                  let action = sample_button (get_button inp);
                      log_text = xbox_record inp action (blink_count st);
                      w1 = w0\<lparr>globals := st, log_file := log_file w0 @ [log_text]\<rparr>
                  in Inr (\<not> quit_pressed (wait_key inp), w1))"

fun xbox_loop :: "config \<Rightarrow> xbox_input list \<Rightarrow> world \<Rightarrow> py_error + (bool \<times> world)" where
  "xbox_loop cfg [] w = Inr (True, w)"
| "xbox_loop cfg (inp # inps) w =
     (case xbox_iteration cfg inp w of
        Inl e \<Rightarrow> Inl e
      | Inr (continue, w') \<Rightarrow> if continue then xbox_loop cfg inps w' else Inr (False, w'))"

text \<open>
  \<^verbatim>\<open>track_actions\<close> of xbox.py (45-148); \<open>joystick_count\<close> is what
  \<^verbatim>\<open>pygame.joystick.get_count()\<close> returns. Without a controller the function prints
  and returns before the camera and the log file are opened.
\<close>

definition xbox_track_actions ::
  "config \<Rightarrow> nat \<Rightarrow> xbox_input list \<Rightarrow> world \<Rightarrow> py_error + (bool \<times> world)" where
  "xbox_track_actions cfg joystick_count inps w =
     (if joystick_count = 0
      then Inr (False, w\<lparr>stdout := stdout w @ [''No controllers connected.'']\<rparr>)
      else xbox_loop cfg inps w)"

text \<open>\<^verbatim>\<open>track_actions\<close> of main.py (66-156).\<close>

definition main_track_actions ::
  "config \<Rightarrow> main_input list \<Rightarrow> world \<Rightarrow> py_error + (bool \<times> world)" where
  "main_track_actions cfg inps w = main_loop cfg inps w"

section \<open>An invariant of the globals\<close>

text \<open>The close start time is present exactly while the eyes are closed.\<close>

definition closed_has_start :: "state \<Rightarrow> bool" where
  "closed_has_start st \<longleftrightarrow>
     (blink_state st = 0 \<and> close_start_time st = None) \<or>
     (blink_state st = 1 \<and> close_start_time st \<noteq> None)"

section \<open>Concrete inputs\<close>

text \<open>
  Three faces with eye outlines on the unit grid: both eyes shut (ratio 0), both eyes
  open (ratio 1), and both eyes at ratio 1/4, the default threshold.
\<close>

definition closed_face :: landmarks where
  "closed_face i = (if i = 39 \<or> i = 45 then (1, 0) else (0, 0))"

definition open_face :: landmarks where
  "open_face i =
     (if i = 37 \<or> i = 43 then (0, 1)
      else if i = 38 \<or> i = 44 then (1, 1)
      else if i = 39 \<or> i = 40 \<or> i = 45 \<or> i = 46 then (1, 0)
      else (0, 0))"

definition threshold_face :: landmarks where
  "threshold_face i =
     (if i = 37 \<or> i = 43 then (0, 1)
      else if i = 39 \<or> i = 45 then (2, 0)
      else (0, 0))"

text \<open>The globals after the closed face at time 10, then the open face at time 10.15.\<close>

definition closed_state :: state where
  "closed_state =
     \<lparr>blink_state = 1, close_start_time = Some 10, blink_count = 0, ear_buffer = [Fin 0]\<rparr>"

definition opened_state :: state where
  "opened_state =
     \<lparr>blink_state = 0, close_start_time = None, blink_count = 1, ear_buffer = [Fin 0, Fin 1]\<rparr>"

definition inert_state :: state where
  "inert_state = initial_state\<lparr>ear_buffer := [Fin (1/4)]\<rparr>"

text \<open>
  Iterations of the pointer/keyboard variant: no face and the key W held; the same with
  the open face; the worlds before and after them.
\<close>

definition no_face_input :: main_input where
  "no_face_input =
     \<lparr>ret = True, faces = [], timestamp = ''2024-12-23 13:48:05'', wait_key = -1,
      cursor_pos = (640, 360), get_key_state = (\<lambda>vk. if vk = 0x57 then -128 else 0)\<rparr>"

definition one_face_input :: main_input where
  "one_face_input = no_face_input\<lparr>faces := [(open_face, 10.15)]\<rparr>"

definition closed_world :: world where
  "closed_world = \<lparr>globals = closed_state, log_file = [], frames_read = 0, stdout = []\<rparr>"

definition opened_world :: world where
  "opened_world =
     \<lparr>globals = opened_state,
      log_file = [''2024-12-23 13:48:05 - (640, 360) - W - 1'' @ [CHR 0x0A]],
      frames_read = 1, stdout = []\<rparr>"

definition held_world :: world where
  "held_world =
     \<lparr>globals = opened_state,
      log_file = [''2024-12-23 13:48:05 - (640, 360) - W - 1'' @ [CHR 0x0A],
                  ''2024-12-23 13:48:05 - (640, 360) - W - 1'' @ [CHR 0x0A]],
      frames_read = 2, stdout = []\<rparr>"

text \<open>A key state with both W and A held and no mouse button.\<close>

definition w_and_a_pressed :: "int \<Rightarrow> int" where
  "w_and_a_pressed vk = (if vk = 0x57 \<or> vk = 0x41 then -128 else 0)"

text \<open>
  Eye outlines on the unit grid: an open eye of ratio 1, and one whose corners \<open>p0\<close>
  and \<open>p3\<close> coincide; a face with two such degenerate eyes.
\<close>

definition open_eye :: "point list" where
  "open_eye = [(0, 0), (0, 1), (1, 1), (1, 0), (1, 0), (0, 0)]"

definition degenerate_eye :: "point list" where
  "degenerate_eye = [(0, 0), (0, 1), (1, 1), (0, 0), (1, 0), (0, 0)]"

definition degenerate_face :: landmarks where
  "degenerate_face i =
     (if i = 37 \<or> i = 43 then (0, 1)
      else if i = 38 \<or> i = 44 then (1, 1)
      else if i = 40 \<or> i = 45 \<or> i = 46 then (1, 0)
      else (0, 0))"

text \<open>
  Iterations of the gamepad variant: axes (0.123, -0.456) and (0.0, 1.0), button A held,
  no face; the same with the open face; the worlds before and after them.
\<close>

definition xbox_no_face_input :: xbox_input where
  "xbox_no_face_input =
     \<lparr>ret = True, faces = [], timestamp = ''2024-12-23 13:48:05'', wait_key = -1,
      get_axis = (\<lambda>i. if i = 0 then 0.123 else if i = 1 then -0.456
                        else if i = 5 then 1.0 else 0.0),
      get_button = (\<lambda>b. b = 0)\<rparr>"

definition xbox_one_face_input :: xbox_input where
  "xbox_one_face_input = xbox_no_face_input\<lparr>faces := [(open_face, 10.15)]\<rparr>"

definition three_blinks_world :: world where
  "three_blinks_world =
     \<lparr>globals = initial_state\<lparr>blink_count := 3\<rparr>, log_file = [], frames_read = 0, stdout = []\<rparr>"

definition three_blinks_logged :: world where
  "three_blinks_logged =
     three_blinks_world
       \<lparr>log_file := [''2024-12-23 13:48:05 - (0.12, -0.46) - (0.00, 1.00) - A - 3'' @ [CHR 0x0A]],
        frames_read := 1\<rparr>"

definition xbox_opened_world :: world where
  "xbox_opened_world =
     \<lparr>globals = opened_state,
      log_file = [''2024-12-23 13:48:05 - (0.12, -0.46) - (0.00, 1.00) - A - 1'' @ [CHR 0x0A]],
      frames_read = 1, stdout = []\<rparr>"

section \<open>The specification's wording, for comparison\<close>

text \<open>
  The action label as the specification words it: after the two mouse buttons, the
  first key of the enumeration order that is pressed.
\<close>

fun spec_first_key :: "(int \<Rightarrow> int) \<Rightarrow> (int \<times> string) list \<Rightarrow> string" where
  "spec_first_key gks [] = ''None''"
| "spec_first_key gks ((vk, name) # rest) =
     (if gks vk < 0 then name else spec_first_key gks rest)"

definition spec_action :: "(int \<Rightarrow> int) \<Rightarrow> string" where
  "spec_action gks =
     (if gks VK_LBUTTON < 0 then ''Left Click''
      else if gks VK_RBUTTON < 0 then ''Right Click''
      else spec_first_key gks key_map)"

text \<open>Reading a decimal numeral back: its digits and their value.\<close>

definition is_digit :: "char \<Rightarrow> bool" where
  "is_digit c \<longleftrightarrow> c \<in> set ''0123456789''"

definition digit_val :: "char \<Rightarrow> nat" where
  "digit_val c = of_char c - 48"

definition dec_val :: "string \<Rightarrow> nat" where
  "dec_val s = foldl (\<lambda>n c. 10 * n + digit_val c) 0 s"

section \<open>Auxiliary facts\<close>

lemma euclidean_nonneg: "0 \<le> euclidean p q"
  by (simp add: euclidean_def)

lemma euclidean_zero_iff: "euclidean p q = 0 \<longleftrightarrow> p = q"
proof -
  have "(fst p - fst q)\<^sup>2 + (snd p - snd q)\<^sup>2 = 0 \<longleftrightarrow> fst p = fst q \<and> snd p = snd q"
    by (simp add: sum_power2_eq_zero_iff)
  then show ?thesis
    by (simp add: euclidean_def prod_eq_iff del: of_int_add of_int_power)
qed

lemma calculate_ear_six:
  "6 \<le> length eye \<Longrightarrow>
   calculate_ear eye =
     Inr (f64_div (Fin (euclidean (eye ! 1) (eye ! 5) + euclidean (eye ! 2) (eye ! 4)))
            (2 * euclidean (eye ! 0) (eye ! 3)))"
  by (simp add: calculate_ear_def)

lemma calculate_ear_left:
  "calculate_ear (map lm [36..<42]) =
     Inr (f64_div (Fin (euclidean (lm 37) (lm 41) + euclidean (lm 38) (lm 40)))
            (2 * euclidean (lm 36) (lm 39)))"
  by (simp add: calculate_ear_six)

lemma calculate_ear_right:
  "calculate_ear (map lm [42..<48]) =
     Inr (f64_div (Fin (euclidean (lm 43) (lm 47) + euclidean (lm 44) (lm 46)))
            (2 * euclidean (lm 42) (lm 45)))"
  by (simp add: calculate_ear_six)

lemma face_avg_ear_eq:
  "face_avg_ear lm =
     Inr (f64_div
            (f64_add
               (f64_div (Fin (euclidean (lm 37) (lm 41) + euclidean (lm 38) (lm 40)))
                  (2 * euclidean (lm 36) (lm 39)))
               (f64_div (Fin (euclidean (lm 43) (lm 47) + euclidean (lm 44) (lm 46)))
                  (2 * euclidean (lm 42) (lm 45))))
            2)"
  unfolding face_avg_ear_def Let_def calculate_ear_left calculate_ear_right by simp

lemma face_avg_ear_total: "\<exists>a. face_avg_ear lm = Inr a"
  by (simp add: face_avg_ear_eq)

lemma deque_append_nonempty: "0 < n \<Longrightarrow> deque_append n buf x \<noteq> []"
  by (simp add: deque_append_def)

lemma deque_append_last: "0 < n \<Longrightarrow> last (deque_append n buf x) = x"
  by (simp add: deque_append_def)

lemma process_face_total:
  "0 < SMOOTHING_WINDOW cfg \<Longrightarrow> \<exists>st'. process_face cfg face st = Inr st'"
  using face_avg_ear_total [of "fst face"]
  by (auto simp add: process_face_def Let_def deque_append_nonempty)

lemma process_face_InrD:
  assumes "process_face cfg face st = Inr st'"
  obtains a where "face_avg_ear (fst face) = Inr a"
    and "deque_append (SMOOTHING_WINDOW cfg) (ear_buffer st) a \<noteq> []"
    and "st' = rise_and_fall cfg (snd face)
                 (smoothed (deque_append (SMOOTHING_WINDOW cfg) (ear_buffer st) a))
                 (st\<lparr>ear_buffer := deque_append (SMOOTHING_WINDOW cfg) (ear_buffer st) a\<rparr>)"
  using assms
  by (auto simp add: process_face_def Let_def split: sum.splits if_splits)

lemma rise_and_fall_buffer [simp]: "ear_buffer (rise_and_fall cfg now s st) = ear_buffer st"
  by (simp add: rise_and_fall_def Let_def split: option.splits)

lemma rise_and_fall_count:
  "blink_count (rise_and_fall cfg now s st) = blink_count st \<or>
   blink_count (rise_and_fall cfg now s st) = blink_count st + 1"
  by (simp add: rise_and_fall_def Let_def split: option.splits)

lemma process_face_buffer:
  assumes "process_face cfg face st = Inr st'"
  shows "\<exists>a. face_avg_ear (fst face) = Inr a \<and>
             ear_buffer st' = deque_append (SMOOTHING_WINDOW cfg) (ear_buffer st) a"
  using assms by (auto elim!: process_face_InrD)

lemma process_face_step:
  assumes "process_face cfg face st = Inr st'"
  shows "st' = rise_and_fall cfg (snd face) (smoothed (ear_buffer st'))
                 (st\<lparr>ear_buffer := ear_buffer st'\<rparr>)"
  using assms by (auto elim!: process_face_InrD)

lemma closed_has_start_initial: "closed_has_start initial_state"
  by (simp add: closed_has_start_def initial_state_def)

lemma closed_has_start_rise_and_fall:
  "closed_has_start st \<Longrightarrow> closed_has_start (rise_and_fall cfg now s st)"
  by (auto simp add: closed_has_start_def rise_and_fall_def Let_def split: option.splits)

lemma closed_has_start_process_face:
  assumes "closed_has_start st" and "process_face cfg face st = Inr st'"
  shows "closed_has_start st'"
proof -
  have "closed_has_start (st\<lparr>ear_buffer := ear_buffer st'\<rparr>)"
    using assms(1) by (simp add: closed_has_start_def)
  then show ?thesis
    using process_face_step [OF assms(2)] closed_has_start_rise_and_fall by metis
qed

lemma closed_has_start_process_faces:
  "closed_has_start st \<Longrightarrow> process_faces cfg fs st = Inr st' \<Longrightarrow> closed_has_start st'"
proof (induction fs arbitrary: st)
  case Nil
  then show ?case by simp
next
  case (Cons f fs)
  then show ?case
    by (auto split: sum.splits dest: closed_has_start_process_face)
qed

lemma rise_and_fall_opening:
  assumes "blink_state st = 1" and "blink_state (rise_and_fall cfg now s st) = 0"
    and "close_start_time st = Some t0"
  shows "blink_count (rise_and_fall cfg now s st) =
           (if MIN_CLOSE_DURATION cfg \<le> now - t0 then blink_count st + 1 else blink_count st)"
  using assms by (auto simp add: rise_and_fall_def Let_def split: if_splits)

lemma rise_and_fall_state:
  "blink_state (rise_and_fall cfg now s st) =
     (if f64_lt s (EAR_THRESHOLD cfg) \<and> blink_state st = 0 then 1
      else if f64_gt s (EAR_THRESHOLD cfg) \<and> blink_state st = 1 then 0
      else blink_state st)"
  by (simp add: rise_and_fall_def Let_def split: option.splits)

lemma rise_and_fall_start:
  "f64_lt s (EAR_THRESHOLD cfg) \<Longrightarrow> blink_state st = 0 \<Longrightarrow>
   close_start_time (rise_and_fall cfg now s st) = Some now"
  by (simp add: rise_and_fall_def)

lemma rise_and_fall_inert:
  "\<not> f64_lt s (EAR_THRESHOLD cfg) \<Longrightarrow> \<not> f64_gt s (EAR_THRESHOLD cfg) \<Longrightarrow>
   rise_and_fall cfg now s st = st"
  by (simp add: rise_and_fall_def)

lemma closed_face_avg: "face_avg_ear closed_face = Inr (Fin 0)"
  by (simp add: face_avg_ear_eq closed_face_def euclidean_def)

lemma open_face_avg: "face_avg_ear open_face = Inr (Fin 1)"
  by (simp add: face_avg_ear_eq open_face_def euclidean_def)

lemma threshold_face_avg: "face_avg_ear threshold_face = Inr (Fin (1/4))"
  by (simp add: face_avg_ear_eq threshold_face_def euclidean_def)

lemma closing_step: "process_face default_config (closed_face, 10) initial_state = Inr closed_state"
  by (simp add: process_face_def closed_face_avg default_config_def initial_state_def
      deque_append_def smoothed_def py_sum_def rise_and_fall_def closed_state_def)

lemma opening_step:
  "process_face default_config (open_face, 10.15) closed_state = Inr opened_state"
  by (simp add: process_face_def open_face_avg default_config_def opened_state_def
      deque_append_def smoothed_def py_sum_def rise_and_fall_def closed_state_def)

lemma inert_step:
  "process_face default_config (threshold_face, 10) initial_state = Inr inert_state"
  by (simp add: process_face_def threshold_face_avg default_config_def initial_state_def
      deque_append_def smoothed_def py_sum_def rise_and_fall_def inert_state_def)

lemma reach_closed:
  "process_faces default_config [(closed_face, 10)] initial_state = Inr closed_state"
  by (simp add: closing_step)

lemma rise_and_fall_count_cause:
  "blink_count (rise_and_fall cfg now s st) \<noteq> blink_count st \<Longrightarrow>
   blink_state st = 1 \<and> blink_state (rise_and_fall cfg now s st) = 0 \<and>
   f64_gt s (EAR_THRESHOLD cfg)"
  by (auto simp add: rise_and_fall_def Let_def split: if_splits option.splits)

lemma process_face_count:
  assumes "process_face cfg face st = Inr st'"
  shows "blink_count st' = blink_count st \<or> blink_count st' = blink_count st + 1"
proof -
  let ?st = "st\<lparr>ear_buffer := ear_buffer st'\<rparr>"
  have "st' = rise_and_fall cfg (snd face) (smoothed (ear_buffer st')) ?st"
    by (rule process_face_step [OF assms])
  then show ?thesis
    using rise_and_fall_count [of cfg "snd face" "smoothed (ear_buffer st')" ?st] by simp
qed

lemma process_face_count_cause:
  assumes "process_face cfg face st = Inr st'" and "blink_count st' \<noteq> blink_count st"
  shows "blink_state st = 1 \<and> blink_state st' = 0 \<and>
         f64_gt (smoothed (ear_buffer st')) (EAR_THRESHOLD cfg)"
proof -
  let ?st = "st\<lparr>ear_buffer := ear_buffer st'\<rparr>"
  have eq: "st' = rise_and_fall cfg (snd face) (smoothed (ear_buffer st')) ?st"
    by (rule process_face_step [OF assms(1)])
  then have "blink_count (rise_and_fall cfg (snd face) (smoothed (ear_buffer st')) ?st)
               \<noteq> blink_count ?st"
    using assms(2) by simp
  from rise_and_fall_count_cause [OF this] eq show ?thesis by simp
qed

lemma process_faces_count:
  "process_faces cfg fs st = Inr st' \<Longrightarrow>
   blink_count st \<le> blink_count st' \<and> blink_count st' \<le> blink_count st + int (length fs)"
proof (induction fs arbitrary: st)
  case Nil
  then show ?case by simp
next
  case (Cons f fs)
  then obtain st1 where 1: "process_face cfg f st = Inr st1"
    and 2: "process_faces cfg fs st1 = Inr st'"
    by (auto split: sum.splits)
  from process_face_count [OF 1] Cons.IH [OF 2] show ?case by auto
qed

lemma main_iteration_InrD:
  assumes "main_iteration cfg inp w = Inr (c, w')"
  shows "(\<not> ret inp \<and> \<not> c \<and> w' = w\<lparr>frames_read := frames_read w + 1\<rparr>) \<or>
         (ret inp \<and> c = (\<not> quit_pressed (wait_key inp)) \<and>
          (\<exists>st. process_faces cfg (faces inp) (globals w) = Inr st \<and>
             w' = w\<lparr>frames_read := frames_read w + 1, globals := st,
                    log_file := log_file w @
                      [main_record inp (sample_action (get_key_state inp)) (blink_count st)]\<rparr>))"
  using assms by (auto simp add: main_iteration_def Let_def split: if_splits sum.splits)

lemma xbox_iteration_InrD:
  assumes "xbox_iteration cfg inp w = Inr (c, w')"
  shows "(\<not> ret inp \<and> \<not> c \<and> w' = w\<lparr>frames_read := frames_read w + 1\<rparr>) \<or>
         (ret inp \<and> c = (\<not> quit_pressed (wait_key inp)) \<and>
          (\<exists>st. process_faces cfg (faces inp) (globals w) = Inr st \<and>
             w' = w\<lparr>frames_read := frames_read w + 1, globals := st,
                    log_file := log_file w @
                      [xbox_record inp (sample_button (get_button inp)) (blink_count st)]\<rparr>))"
  using assms by (auto simp add: xbox_iteration_def Let_def split: if_splits sum.splits)

lemma main_iteration_count:
  assumes "main_iteration cfg inp w = Inr (c, w')"
  shows "blink_count (globals w) \<le> blink_count (globals w') \<and>
         blink_count (globals w') \<le> blink_count (globals w) + int (length (faces inp))"
  using main_iteration_InrD [OF assms] by (auto dest: process_faces_count)

lemma xbox_iteration_count:
  assumes "xbox_iteration cfg inp w = Inr (c, w')"
  shows "blink_count (globals w) \<le> blink_count (globals w') \<and>
         blink_count (globals w') \<le> blink_count (globals w) + int (length (faces inp))"
  using xbox_iteration_InrD [OF assms] by (auto dest: process_faces_count)

lemma main_loop_count:
  "main_loop cfg inps w = Inr (c, w') \<Longrightarrow> blink_count (globals w) \<le> blink_count (globals w')"
proof (induction inps arbitrary: w)
  case Nil
  then show ?case by simp
next
  case (Cons inp inps)
  then obtain c1 w1 where 1: "main_iteration cfg inp w = Inr (c1, w1)"
    and 2: "if c1 then main_loop cfg inps w1 = Inr (c, w') else w' = w1"
    by (auto split: sum.splits if_splits)
  show ?case
  proof (cases c1)
    case True
    with 2 Cons.IH have "blink_count (globals w1) \<le> blink_count (globals w')" by simp
    with main_iteration_count [OF 1] show ?thesis by simp
  next
    case False
    with 2 main_iteration_count [OF 1] show ?thesis by simp
  qed
qed

lemma main_loop_append:
  "main_loop cfg (xs @ ys) w =
     (case main_loop cfg xs w of
        Inl e \<Rightarrow> Inl e
      | Inr (c, w1) \<Rightarrow> if c then main_loop cfg ys w1 else Inr (False, w1))"
  by (induction xs arbitrary: w) (auto split: sum.splits)

lemma deque_append_length: "length buf \<le> n \<Longrightarrow> length (deque_append n buf x) \<le> n"
  by (auto simp add: deque_append_def)

lemma deque_fold:
  "0 < n \<Longrightarrow> length buf \<le> n \<Longrightarrow>
   foldl (deque_append n) buf xs = drop (length buf + length xs - n) (buf @ xs)"
proof (induction xs arbitrary: buf)
  case Nil
  then show ?case by simp
next
  case (Cons x xs)
  show ?case
  proof (cases "length buf = n")
    case True
    with Cons.prems have ne: "buf \<noteq> []" by auto
    have step: "deque_append n buf x = tl buf @ [x]"
      using True Cons.prems by (simp add: deque_append_def)
    have len: "length (tl buf @ [x]) = n" using True ne by (cases buf) auto
    have "foldl (deque_append n) buf (x # xs) = foldl (deque_append n) (tl buf @ [x]) xs"
      by (simp add: step)
    also have "\<dots> = drop (length (tl buf @ [x]) + length xs - n) ((tl buf @ [x]) @ xs)"
      using Cons.prems(1) len by (intro Cons.IH) simp_all
    also have "\<dots> = drop (length xs) (tl buf @ x # xs)"
      using len by simp
    also have "\<dots> = drop (length xs) (drop 1 (buf @ x # xs))"
      using ne by (cases buf) simp_all
    also have "\<dots> = drop (length xs + 1) (buf @ x # xs)"
      by (simp only: drop_drop)
    also have "length xs + 1 = length buf + length (x # xs) - n"
      using True by simp
    finally show ?thesis .
  next
    case False
    with Cons.prems have lt: "length buf < n" by simp
    have step: "deque_append n buf x = buf @ [x]"
      using False Cons.prems by (simp add: deque_append_def)
    have "foldl (deque_append n) buf (x # xs) = foldl (deque_append n) (buf @ [x]) xs"
      by (simp add: step)
    also have "\<dots> = drop (length (buf @ [x]) + length xs - n) ((buf @ [x]) @ xs)"
      using Cons.prems(1) lt by (intro Cons.IH) simp_all
    finally show ?thesis by simp
  qed
qed

lemma foldl_f64_add_Fin: "foldl f64_add (Fin c) (map Fin rs) = Fin (c + sum_list rs)"
  by (induction rs arbitrary: c) (simp_all add: add.assoc)

lemma py_sum_Fin: "py_sum (map Fin rs) = Fin (sum_list rs)"
  by (simp add: py_sum_def foldl_f64_add_Fin)

lemma smoothed_Fin: "rs \<noteq> [] \<Longrightarrow> smoothed (map Fin rs) = Fin (sum_list rs / real (length rs))"
  by (simp add: smoothed_def py_sum_Fin)

lemma process_faces_buffer:
  "process_faces cfg fs st = Inr st' \<Longrightarrow>
   \<exists>samples. map (face_avg_ear \<circ> fst) fs = map Inr samples \<and>
     ear_buffer st' = foldl (deque_append (SMOOTHING_WINDOW cfg)) (ear_buffer st) samples"
proof (induction fs arbitrary: st)
  case Nil
  then show ?case by simp
next
  case (Cons f fs)
  then obtain st1 where 1: "process_face cfg f st = Inr st1"
    and 2: "process_faces cfg fs st1 = Inr st'"
    by (auto split: sum.splits)
  from process_face_buffer [OF 1] obtain a where a: "face_avg_ear (fst f) = Inr a"
    "ear_buffer st1 = deque_append (SMOOTHING_WINDOW cfg) (ear_buffer st) a" by blast
  from Cons.IH [OF 2] obtain samples where s: "map (face_avg_ear \<circ> fst) fs = map Inr samples"
    "ear_buffer st' = foldl (deque_append (SMOOTHING_WINDOW cfg)) (ear_buffer st1) samples"
    by blast
  have "map (face_avg_ear \<circ> fst) (f # fs) = map Inr (a # samples)"
    using a(1) s(1) by simp
  moreover have "ear_buffer st' =
      foldl (deque_append (SMOOTHING_WINDOW cfg)) (ear_buffer st) (a # samples)"
    using a(2) s(2) by simp
  ultimately show ?case by blast
qed

lemma two_faces_run:
  "process_faces default_config [(closed_face, 10), (open_face, 10.15)] initial_state =
     Inr opened_state"
  by (simp only: process_faces.simps closing_step opening_step sum.case)

lemma main_one_face_step:
  "main_iteration default_config one_face_input closed_world =
     Inr (True, opened_world)"
proof -
  have f: "process_faces default_config [(open_face, 10.15)] closed_state = Inr opened_state"
    by (simp only: process_faces.simps opening_step sum.case)
  have a: "sample_action (get_key_state one_face_input) = ''W''"
    by (simp add: one_face_input_def no_face_input_def sample_action_def key_map_def
        VK_LBUTTON_def VK_RBUTTON_def
        VK_SHIFT_def VK_CONTROL_def VK_MENU_def VK_SPACE_def VK_ESCAPE_def)
  have l: "main_record one_face_input ''W'' 1 =
      ''2024-12-23 13:48:05 - (640, 360) - W - 1'' @ [CHR 0x0A]"
    by (simp add: main_record_def one_face_input_def no_face_input_def str_coords_def
        str_int_def str_nat.simps digit_char_def)
  have i: "ret one_face_input" "faces one_face_input = [(open_face, 10.15)]"
    "\<not> quit_pressed (wait_key one_face_input)"
    by (simp_all add: one_face_input_def no_face_input_def quit_pressed_def)
  have c: "blink_count opened_state = 1" by (simp add: opened_state_def)
  show ?thesis
    unfolding main_iteration_def Let_def
    using f a l i c by (simp add: closed_world_def opened_world_def)
qed


lemma main_no_face_step:
  "main_iteration default_config no_face_input opened_world = Inr (True, held_world)"
proof -
  have a: "sample_action (get_key_state no_face_input) = ''W''"
    by (simp add: no_face_input_def sample_action_def key_map_def
        VK_LBUTTON_def VK_RBUTTON_def
        VK_SHIFT_def VK_CONTROL_def VK_MENU_def VK_SPACE_def VK_ESCAPE_def)
  have l: "main_record no_face_input ''W'' 1 =
      ''2024-12-23 13:48:05 - (640, 360) - W - 1'' @ [CHR 0x0A]"
    by (simp add: main_record_def no_face_input_def str_coords_def
        str_int_def str_nat.simps digit_char_def)
  have i: "ret no_face_input" "faces no_face_input = []"
    "\<not> quit_pressed (wait_key no_face_input)"
    by (simp_all add: no_face_input_def quit_pressed_def)
  have c: "blink_count opened_state = 1" by (simp add: opened_state_def)
  show ?thesis
    unfolding main_iteration_def Let_def
    using a l i c by (simp add: opened_world_def held_world_def)
qed

lemma main_loop_one: "main_loop default_config [one_face_input] closed_world = Inr (True, opened_world)"
  by (simp only: main_loop.simps main_one_face_step sum.case prod.case if_True)

lemma main_loop_two:
  "main_loop default_config ([one_face_input] @ [no_face_input]) closed_world =
     Inr (True, held_world)"
  by (simp only: append.simps main_loop.simps main_one_face_step main_no_face_step
      sum.case prod.case if_True)

lemmas vk_defs = VK_LBUTTON_def VK_RBUTTON_def VK_SHIFT_def VK_CONTROL_def VK_MENU_def
  VK_SPACE_def VK_ESCAPE_def

lemma scan_keys_none:
  "\<forall>(vk, name) \<in> set km. \<not> gks vk < 0 \<Longrightarrow> scan_keys gks action km = action"
  by (induction km arbitrary: action) auto

lemma mouse_priority:
  "(gks VK_LBUTTON < 0 \<longrightarrow> sample_action gks = ''Left Click'') \<and>
   (\<not> gks VK_LBUTTON < 0 \<and> gks VK_RBUTTON < 0 \<longrightarrow> sample_action gks = ''Right Click'')"
  by (simp add: sample_action_def)

lemma f64_div_nonfinite: "\<not> is_finite x \<Longrightarrow> x \<noteq> NInf \<Longrightarrow> 0 < b \<Longrightarrow>
  \<not> is_finite (f64_div x b) \<and> f64_div x b \<noteq> NInf"
  by (cases x) auto

lemma calculate_ear_cases:
  assumes "length eye = 6"
  shows "(euclidean (eye ! 0) (eye ! 3) \<noteq> 0 \<longrightarrow>
            (\<exists>r. calculate_ear eye = Inr (Fin r) \<and> 0 \<le> r)) \<and>
         (euclidean (eye ! 0) (eye ! 3) = 0 \<longrightarrow>
            calculate_ear eye = Inr PInf \<or> calculate_ear eye = Inr NaN)"
proof -
  let ?A = "euclidean (eye ! 1) (eye ! 5)" and ?B = "euclidean (eye ! 2) (eye ! 4)"
  let ?C = "euclidean (eye ! 0) (eye ! 3)"
  have eq: "calculate_ear eye = Inr (f64_div (Fin (?A + ?B)) (2 * ?C))"
    using assms by (simp add: calculate_ear_six)
  have nn: "0 \<le> ?A + ?B" "0 \<le> ?C" by (simp_all add: euclidean_nonneg)
  have a: "?C \<noteq> 0 \<longrightarrow> (\<exists>r. calculate_ear eye = Inr (Fin r) \<and> 0 \<le> r)"
  proof
    assume "?C \<noteq> 0"
    then have "calculate_ear eye = Inr (Fin ((?A + ?B) / (2 * ?C)))"
      by (simp add: eq)
    moreover have "0 \<le> (?A + ?B) / (2 * ?C)" using nn by simp
    ultimately show "\<exists>r. calculate_ear eye = Inr (Fin r) \<and> 0 \<le> r" by blast
  qed
  have b: "?C = 0 \<longrightarrow> calculate_ear eye = Inr PInf \<or> calculate_ear eye = Inr NaN"
    using nn(1) by (auto simp add: eq)
  from a b show ?thesis by blast
qed

lemma lt_10_cases:
  "(d::nat) < 10 \<Longrightarrow> d = 0 \<or> d = 1 \<or> d = 2 \<or> d = 3 \<or> d = 4 \<or> d = 5 \<or> d = 6 \<or> d = 7 \<or> d = 8 \<or> d = 9"
  by arith

lemma digit_char_digit: "d < 10 \<Longrightarrow> is_digit (digit_char d) \<and> digit_val (digit_char d) = d"
  using lt_10_cases [of d] by (auto simp add: digit_char_def is_digit_def digit_val_def)

lemma dec_val_snoc: "dec_val (s @ [c]) = 10 * dec_val s + digit_val c"
  by (simp add: dec_val_def)

lemma str_nat_digits:
  "str_nat n \<noteq> [] \<and> (\<forall>c \<in> set (str_nat n). is_digit c) \<and> dec_val (str_nat n) = n"
proof (induction n rule: str_nat.induct)
  case (1 n)
  show ?case
  proof (cases "n < 10")
    case True
    then have "str_nat n = [digit_char n]" by (simp add: str_nat.simps)
    with digit_char_digit [OF True] show ?thesis by (simp add: dec_val_def)
  next
    case False
    then have eq: "str_nat n = str_nat (n div 10) @ [digit_char (n mod 10)]"
      by (simp add: str_nat.simps)
    have d: "is_digit (digit_char (n mod 10)) \<and> digit_val (digit_char (n mod 10)) = n mod 10"
      by (rule digit_char_digit) simp
    from "1.IH" [OF False] d show ?thesis
      by (auto simp add: eq dec_val_snoc)
  qed
qed

lemma round_half_even_near: "\<bar>real_of_int (round_half_even y) - y\<bar> \<le> 1/2"
proof -
  have "real_of_int \<lfloor>y\<rfloor> \<le> y" "y < real_of_int \<lfloor>y\<rfloor> + 1" by linarith+
  then show ?thesis
    by (auto simp add: round_half_even_def Let_def)
qed

lemma round_half_even_nonneg: "0 \<le> y \<Longrightarrow> 0 \<le> round_half_even y"
  by (auto simp add: round_half_even_def Let_def)

lemma hundredths_split:
  "real (n div 100) + real (n mod 100 div 10) / 10 + real (n mod 10) / 100 = real n / 100"
proof -
  have a: "n = 100 * (n div 100) + n mod 100" by simp
  have b: "n mod 100 = 10 * (n mod 100 div 10) + n mod 100 mod 10" by simp
  have c: "n mod 100 mod 10 = n mod 10" by (simp add: mod_mod_cancel)
  have "n = 100 * (n div 100) + 10 * (n mod 100 div 10) + n mod 10"
    using a b c by linarith
  then have "real n = real (100 * (n div 100) + 10 * (n mod 100 div 10) + n mod 10)" by simp
  then have "real n = 100 * real (n div 100) + 10 * real (n mod 100 div 10) + real (n mod 10)"
    by simp
  then show ?thesis by simp
qed

lemma format_2f_two_decimals:
  "\<exists>ip d1 d2.
     format_2f x = (if x < 0 then ''-'' else '''') @ ip @ ''.'' @ [d1, d2] \<and>
     ip \<noteq> [] \<and> (\<forall>c \<in> set ip. is_digit c) \<and> is_digit d1 \<and> is_digit d2 \<and>
     \<bar>real (dec_val ip) + real (digit_val d1) / 10 + real (digit_val d2) / 100 - \<bar>x\<bar>\<bar> \<le> 1/200"
proof -
  define n where "n = nat (round_half_even (\<bar>x\<bar> * 100))"
  let ?ip = "str_nat (n div 100)"
  let ?d1 = "digit_char (n mod 100 div 10)" and ?d2 = "digit_char (n mod 10)"
  have f: "format_2f x = (if x < 0 then ''-'' else '''') @ ?ip @ ''.'' @ [?d1, ?d2]"
    by (simp add: format_2f_def n_def Let_def)
  have "n mod 100 div 10 < 10"
    by (simp add: div_less_iff_less_mult)
  then have d1: "is_digit ?d1 \<and> digit_val ?d1 = n mod 100 div 10"
    by (rule digit_char_digit)
  have d2: "is_digit ?d2 \<and> digit_val ?d2 = n mod 10"
    by (rule digit_char_digit) simp
  have ip: "?ip \<noteq> [] \<and> (\<forall>c \<in> set ?ip. is_digit c) \<and> dec_val ?ip = n div 100"
    by (rule str_nat_digits)
  have "0 \<le> round_half_even (\<bar>x\<bar> * 100)"
    by (rule round_half_even_nonneg) simp
  then have "real n = real_of_int (round_half_even (\<bar>x\<bar> * 100))"
    by (simp add: n_def)
  with round_half_even_near [of "\<bar>x\<bar> * 100"] have "\<bar>real n - \<bar>x\<bar> * 100\<bar> \<le> 1/2" by simp
  then have "\<bar>real n / 100 - \<bar>x\<bar>\<bar> \<le> 1/200" by (simp add: abs_le_iff field_simps)
  moreover have "real (dec_val ?ip) + real (digit_val ?d1) / 10 + real (digit_val ?d2) / 100
      = real n / 100"
    using ip d1 d2 by (simp only: hundredths_split)
  ultimately
  have "\<bar>real (dec_val ?ip) + real (digit_val ?d1) / 10 + real (digit_val ?d2) / 100 - \<bar>x\<bar>\<bar>
               \<le> 1/200"
    by (simp only:)
  with f ip d1 d2 show ?thesis by blast
qed

lemma f64_add_nonfinite:
  "\<not> is_finite x \<or> \<not> is_finite y \<Longrightarrow> x \<noteq> NInf \<Longrightarrow> y \<noteq> NInf \<Longrightarrow>
   \<not> is_finite (f64_add x y) \<and> f64_add x y \<noteq> NInf"
  by (cases x; cases y) auto

lemma eye_ratio_not_NInf: "0 \<le> a \<Longrightarrow> f64_div (Fin a) b \<noteq> NInf"
  by auto

lemma eye_ratio_degenerate: "0 \<le> a \<Longrightarrow> \<not> is_finite (f64_div (Fin a) (2 * 0))"
  by auto

lemma face_avg_ear_degenerate:
  assumes "lm 36 = lm 39 \<or> lm 42 = lm 45"
  shows "\<exists>a. face_avg_ear lm = Inr a \<and> \<not> is_finite a"
proof -
  let ?l = "f64_div (Fin (euclidean (lm 37) (lm 41) + euclidean (lm 38) (lm 40)))
                  (2 * euclidean (lm 36) (lm 39))"
  let ?r = "f64_div (Fin (euclidean (lm 43) (lm 47) + euclidean (lm 44) (lm 46)))
                  (2 * euclidean (lm 42) (lm 45))"
  have nn: "0 \<le> euclidean (lm 37) (lm 41) + euclidean (lm 38) (lm 40)"
    "0 \<le> euclidean (lm 43) (lm 47) + euclidean (lm 44) (lm 46)"
    by (simp_all add: euclidean_nonneg)
  have l: "?l \<noteq> NInf" and r: "?r \<noteq> NInf"
    using nn by (simp_all only: eye_ratio_not_NInf not_False_eq_True)
  have "\<not> is_finite ?l \<or> \<not> is_finite ?r"
  proof (rule disjE [OF assms])
    assume "lm 36 = lm 39"
    then have "euclidean (lm 36) (lm 39) = 0" by (simp add: euclidean_zero_iff)
    then have "\<not> is_finite ?l" using nn(1) by (simp only: eye_ratio_degenerate not_False_eq_True)
    then show ?thesis ..
  next
    assume "lm 42 = lm 45"
    then have "euclidean (lm 42) (lm 45) = 0" by (simp add: euclidean_zero_iff)
    then have "\<not> is_finite ?r" using nn(2) by (simp only: eye_ratio_degenerate not_False_eq_True)
    then show ?thesis ..
  qed
  from f64_add_nonfinite [OF this l r]
  have "\<not> is_finite (f64_div (f64_add ?l ?r) 2)"
    by (intro conjunct1 [OF f64_div_nonfinite]) simp_all
  then show ?thesis by (simp only: face_avg_ear_eq) blast
qed

lemma degenerate_face_step:
  "process_face default_config (degenerate_face, 10) initial_state =
     Inr (initial_state\<lparr>ear_buffer := [PInf]\<rparr>)"
  by (simp add: process_face_def
      face_avg_ear_eq degenerate_face_def default_config_def initial_state_def euclidean_def
      deque_append_def smoothed_def py_sum_def rise_and_fall_def)

lemma xbox_example_record:
  "xbox_record xbox_no_face_input ''A'' 3 =
     ''2024-12-23 13:48:05 - (0.12, -0.46) - (0.00, 1.00) - A - 3'' @ [CHR 0x0A]"
  by (simp add: xbox_record_def xbox_no_face_input_def format_2f_def round_half_even_def
      str_nat.simps digit_char_def str_int_def)

lemma xbox_example_button: "sample_button (get_button xbox_no_face_input) = ''A''"
  by (simp add: sample_button_def controller_map_def xbox_no_face_input_def)

lemma xbox_example_step:
  "xbox_iteration default_config xbox_no_face_input three_blinks_world =
     Inr (True, three_blinks_logged)"
proof -
  have i: "ret xbox_no_face_input" "faces xbox_no_face_input = []"
    "\<not> quit_pressed (wait_key xbox_no_face_input)"
    by (simp_all add: xbox_no_face_input_def quit_pressed_def)
  have c: "blink_count (globals three_blinks_world) = 3"
    by (simp add: three_blinks_world_def)
  show ?thesis
    unfolding xbox_iteration_def Let_def
    using i c xbox_example_button xbox_example_record
    by (simp add: three_blinks_world_def three_blinks_logged_def)
qed

lemma xbox_one_face_step:
  "xbox_iteration default_config xbox_one_face_input closed_world =
     Inr (True, xbox_opened_world)"
proof -
  have f: "process_faces default_config [(open_face, 10.15)] closed_state = Inr opened_state"
    by (simp only: process_faces.simps opening_step sum.case)
  have a: "sample_button (get_button xbox_one_face_input) = ''A''"
    by (simp add: sample_button_def controller_map_def xbox_one_face_input_def
        xbox_no_face_input_def)
  have l: "xbox_record xbox_one_face_input ''A'' 1 =
      ''2024-12-23 13:48:05 - (0.12, -0.46) - (0.00, 1.00) - A - 1'' @ [CHR 0x0A]"
    by (simp add: xbox_record_def xbox_one_face_input_def xbox_no_face_input_def format_2f_def
        round_half_even_def str_nat.simps digit_char_def str_int_def)
  have i: "ret xbox_one_face_input" "faces xbox_one_face_input = [(open_face, 10.15)]"
    "\<not> quit_pressed (wait_key xbox_one_face_input)"
    by (simp_all add: xbox_one_face_input_def xbox_no_face_input_def quit_pressed_def)
  have c: "blink_count opened_state = 1" by (simp add: opened_state_def)
  show ?thesis
    unfolding xbox_iteration_def Let_def
    using f a l i c by (simp add: closed_world_def xbox_opened_world_def)
qed

section \<open>The claims\<close>

text \<open>
  C3. On a CLOSED to OPEN transition of the blink detector, in any state the loop can
  reach from its initial state, the close start time \<open>t0\<close> is present and the blink
  count goes up by exactly 1 if the closed duration \<open>now - t0\<close> is at least
  MIN_CLOSE_DURATION, and stays as it is otherwise. In particular, with
  MIN_CLOSE_DURATION = 0 every dip counts whatever its duration (the clock not running
  backwards), and a dip shorter than MIN_CLOSE_DURATION does not count.
\<close>

theorem blink_counted_iff_closed_long_enough:
  assumes reach: "process_faces cfg fs initial_state = Inr st"
    and step: "process_face cfg (lm, now) st = Inr st'"
    and closed: "blink_state st = 1"
    and opened: "blink_state st' = 0"
  shows "\<exists>t0. close_start_time st = Some t0 \<and>
           blink_count st' =
             (if MIN_CLOSE_DURATION cfg \<le> now - t0 then blink_count st + 1 else blink_count st) \<and>
           (MIN_CLOSE_DURATION cfg = 0 \<and> t0 \<le> now \<longrightarrow> blink_count st' = blink_count st + 1) \<and>
           (now - t0 < MIN_CLOSE_DURATION cfg \<longrightarrow> blink_count st' = blink_count st)"
proof -
  have "closed_has_start st"
    using closed_has_start_initial reach by (rule closed_has_start_process_faces)
  with closed obtain t0 where t0: "close_start_time st = Some t0"
    by (auto simp add: closed_has_start_def)
  let ?st = "st\<lparr>ear_buffer := ear_buffer st'\<rparr>"
  have eq: "st' = rise_and_fall cfg now (smoothed (ear_buffer st')) ?st"
    using process_face_step [OF step] by simp
  have "blink_count (rise_and_fall cfg now (smoothed (ear_buffer st')) ?st) =
          (if MIN_CLOSE_DURATION cfg \<le> now - t0 then blink_count ?st + 1 else blink_count ?st)"
    using closed opened t0 eq by (intro rise_and_fall_opening) simp_all
  then have "blink_count st' =
          (if MIN_CLOSE_DURATION cfg \<le> now - t0 then blink_count st + 1 else blink_count st)"
    using eq by simp
  with t0 show ?thesis by auto
qed

theorem blink_counted_iff_closed_long_enough_witness:
  "process_faces default_config [(closed_face, 10)] initial_state = Inr closed_state \<and>
   process_face default_config (open_face, 10.15) closed_state = Inr opened_state \<and>
   blink_state closed_state = 1 \<and> blink_state opened_state = 0 \<and>
   close_start_time closed_state = Some 10 \<and>
   MIN_CLOSE_DURATION default_config \<le> 10.15 - 10 \<and>
   blink_count opened_state = blink_count closed_state + 1"
proof -
  have o: "blink_state closed_state = 1" "blink_state opened_state = 0"
    "close_start_time closed_state = Some 10"
    by (simp_all add: opened_state_def closed_state_def)
  have m: "MIN_CLOSE_DURATION default_config \<le> 10.15 - 10"
    by (simp add: default_config_def)
  show ?thesis
    using blink_counted_iff_closed_long_enough [OF reach_closed opening_step o(1) o(2)]
      reach_closed opening_step o m
    by simp
qed

text \<open>
  C4. For every smoothed ratio \<open>s\<close> computed by a per-face update: from OPEN the state
  becomes CLOSED exactly when \<open>s < EAR_THRESHOLD\<close>, and then the close start time is
  the current clock reading; from CLOSED the state becomes OPEN exactly when
  \<open>s > EAR_THRESHOLD\<close>; when \<open>s = EAR_THRESHOLD\<close> the state, the close start time and
  the count stay as they are. The initial state is OPEN.
\<close>

theorem blink_state_transitions:
  assumes step: "process_face cfg (lm, now) st = Inr st'"
  shows "(blink_state st = 0 \<longrightarrow>
            blink_state st' =
              (if f64_lt (smoothed (ear_buffer st')) (EAR_THRESHOLD cfg) then 1 else 0) \<and>
            (blink_state st' = 1 \<longrightarrow> close_start_time st' = Some now)) \<and>
         (blink_state st = 1 \<longrightarrow>
            blink_state st' =
              (if f64_gt (smoothed (ear_buffer st')) (EAR_THRESHOLD cfg) then 0 else 1)) \<and>
         (smoothed (ear_buffer st') = Fin (EAR_THRESHOLD cfg) \<longrightarrow>
            blink_state st' = blink_state st \<and>
            close_start_time st' = close_start_time st \<and>
            blink_count st' = blink_count st) \<and>
         blink_state initial_state = 0"
proof -
  let ?s = "smoothed (ear_buffer st')"
  let ?st = "st\<lparr>ear_buffer := ear_buffer st'\<rparr>"
  have eq: "st' = rise_and_fall cfg now ?s ?st"
    using process_face_step [OF step] by simp
  have st: "blink_state st' =
     (if f64_lt ?s (EAR_THRESHOLD cfg) \<and> blink_state st = 0 then 1
      else if f64_gt ?s (EAR_THRESHOLD cfg) \<and> blink_state st = 1 then 0
      else blink_state st)"
    using rise_and_fall_state [of cfg now ?s ?st] eq by simp
  have a: "blink_state st = 0 \<longrightarrow>
            blink_state st' = (if f64_lt ?s (EAR_THRESHOLD cfg) then 1 else 0) \<and>
            (blink_state st' = 1 \<longrightarrow> close_start_time st' = Some now)"
  proof
    assume o: "blink_state st = 0"
    have "close_start_time st' = Some now" if "f64_lt ?s (EAR_THRESHOLD cfg)"
      using rise_and_fall_start [of ?s cfg ?st now] that o eq by simp
    with st o show "blink_state st' = (if f64_lt ?s (EAR_THRESHOLD cfg) then 1 else 0) \<and>
            (blink_state st' = 1 \<longrightarrow> close_start_time st' = Some now)"
      by (auto split: if_splits)
  qed
  have b: "blink_state st = 1 \<longrightarrow>
            blink_state st' = (if f64_gt ?s (EAR_THRESHOLD cfg) then 0 else 1)"
    using st by simp
  have c: "?s = Fin (EAR_THRESHOLD cfg) \<longrightarrow>
            blink_state st' = blink_state st \<and>
            close_start_time st' = close_start_time st \<and>
            blink_count st' = blink_count st"
  proof
    assume e: "?s = Fin (EAR_THRESHOLD cfg)"
    have "rise_and_fall cfg now ?s ?st = ?st"
      by (rule rise_and_fall_inert) (simp_all add: e)
    with eq have "st' = ?st" by simp
    then have "blink_state st' = blink_state ?st" "close_start_time st' = close_start_time ?st"
      "blink_count st' = blink_count ?st" by simp_all
    then show "blink_state st' = blink_state st \<and>
            close_start_time st' = close_start_time st \<and>
            blink_count st' = blink_count st" by simp
  qed
  from a b c show ?thesis by (simp add: initial_state_def)
qed

theorem blink_state_transitions_witness:
  "(process_face default_config (closed_face, 10) initial_state = Inr closed_state \<and>
    blink_state initial_state = 0 \<and>
    f64_lt (smoothed (ear_buffer closed_state)) (EAR_THRESHOLD default_config) \<and>
    blink_state closed_state = 1 \<and> close_start_time closed_state = Some 10) \<and>
   (process_face default_config (open_face, 10.15) closed_state = Inr opened_state \<and>
    blink_state closed_state = 1 \<and>
    f64_gt (smoothed (ear_buffer opened_state)) (EAR_THRESHOLD default_config) \<and>
    blink_state opened_state = 0) \<and>
   (process_face default_config (threshold_face, 10) initial_state = Inr inert_state \<and>
    smoothed (ear_buffer inert_state) = Fin (EAR_THRESHOLD default_config) \<and>
    blink_state inert_state = blink_state initial_state)"
proof -
  have a: "f64_lt (smoothed (ear_buffer closed_state)) (EAR_THRESHOLD default_config)"
    by (simp add: closed_state_def smoothed_def py_sum_def default_config_def)
  have b: "f64_gt (smoothed (ear_buffer opened_state)) (EAR_THRESHOLD default_config)"
    by (simp add: opened_state_def smoothed_def py_sum_def default_config_def)
  have c: "smoothed (ear_buffer inert_state) = Fin (EAR_THRESHOLD default_config)"
    by (simp add: inert_state_def smoothed_def py_sum_def default_config_def)
  have o: "blink_state initial_state = 0" "blink_state closed_state = 1"
    by (simp_all add: initial_state_def closed_state_def)
  show ?thesis
    using blink_state_transitions [OF closing_step] blink_state_transitions [OF opening_step]
      blink_state_transitions [OF inert_step] closing_step opening_step inert_step a b c o
    by simp
qed

text \<open>
  C5. After inserting the samples \<open>a1..ak\<close> into the empty smoothing buffer of capacity
  \<open>W\<close>, the buffer holds the last \<open>W\<close> of them in order (all of them while
  \<open>k \<le> W\<close>), and its output is their arithmetic mean: the mean of \<open>a1..ak\<close> for
  \<open>k \<le> W\<close>, with no padding, and the mean of the last \<open>W\<close> samples for \<open>k > W\<close>.
  This is the buffer the loop over the faces builds from the ratios of the faces it has
  processed. The default capacity is 5.
\<close>

theorem smoothed_is_mean_of_last_window:
  assumes W: "0 < SMOOTHING_WINDOW cfg" and ne: "rs \<noteq> []"
  shows "foldl (deque_append (SMOOTHING_WINDOW cfg)) [] (map Fin rs) =
           map Fin (drop (length rs - SMOOTHING_WINDOW cfg) rs) \<and>
         (length rs \<le> SMOOTHING_WINDOW cfg \<longrightarrow>
            smoothed (foldl (deque_append (SMOOTHING_WINDOW cfg)) [] (map Fin rs)) =
              Fin (sum_list rs / real (length rs))) \<and>
         (SMOOTHING_WINDOW cfg < length rs \<longrightarrow>
            smoothed (foldl (deque_append (SMOOTHING_WINDOW cfg)) [] (map Fin rs)) =
              Fin (sum_list (drop (length rs - SMOOTHING_WINDOW cfg) rs)
                   / real (SMOOTHING_WINDOW cfg))) \<and>
         (process_faces cfg fs initial_state = Inr st' \<and>
          map (face_avg_ear \<circ> fst) fs = map (Inr \<circ> Fin) rs \<longrightarrow>
            ear_buffer st' = foldl (deque_append (SMOOTHING_WINDOW cfg)) [] (map Fin rs)) \<and>
         SMOOTHING_WINDOW default_config = 5"
proof -
  let ?W = "SMOOTHING_WINDOW cfg"
  let ?buf = "foldl (deque_append ?W) [] (map Fin rs)"
  let ?last = "drop (length rs - ?W) rs"
  have buf: "?buf = map Fin ?last"
    using deque_fold [of ?W "[]" "map Fin rs"] W by (simp add: drop_map)
  have "0 < length rs" using ne by simp
  with W have "length rs - ?W < length rs" by arith
  then have last_ne: "?last \<noteq> []" by simp
  have sm: "smoothed ?buf = Fin (sum_list ?last / real (length ?last))"
    unfolding buf by (rule smoothed_Fin [OF last_ne])
  have warm: "length rs \<le> ?W \<longrightarrow> smoothed ?buf = Fin (sum_list rs / real (length rs))"
    using sm by simp
  have full: "?W < length rs \<longrightarrow> smoothed ?buf = Fin (sum_list ?last / real ?W)"
    using sm by auto
  have run: "process_faces cfg fs initial_state = Inr st' \<and>
          map (face_avg_ear \<circ> fst) fs = map (Inr \<circ> Fin) rs \<longrightarrow> ear_buffer st' = ?buf"
  proof
    assume a: "process_faces cfg fs initial_state = Inr st' \<and>
          map (face_avg_ear \<circ> fst) fs = map (Inr \<circ> Fin) rs"
    then obtain samples where s: "map (face_avg_ear \<circ> fst) fs = map Inr samples"
      "ear_buffer st' = foldl (deque_append ?W) (ear_buffer initial_state) samples"
      using process_faces_buffer by blast
    have "map (Inr :: f64 \<Rightarrow> py_error + f64) samples = map (Inr \<circ> Fin) rs"
      using a s(1) by simp
    then have "samples = map Fin rs"
      by (auto simp add: list_eq_iff_nth_eq)
    with s(2) show "ear_buffer st' = ?buf" by (simp add: initial_state_def)
  qed
  from buf warm full run show ?thesis by (simp add: default_config_def)
qed

theorem smoothed_is_mean_of_last_window_witness:
  "0 < SMOOTHING_WINDOW default_config \<and>
   (length [1, 2, 3 :: real] \<le> SMOOTHING_WINDOW default_config \<and>
    smoothed (foldl (deque_append (SMOOTHING_WINDOW default_config)) []
                (map Fin [1, 2, 3])) = Fin 2) \<and>
   (SMOOTHING_WINDOW default_config < length [1, 2, 3, 4, 5, 6, 7 :: real] \<and>
    smoothed (foldl (deque_append (SMOOTHING_WINDOW default_config)) []
                (map Fin [1, 2, 3, 4, 5, 6, 7])) = Fin 5) \<and>
   (process_faces default_config [(closed_face, 10), (open_face, 10.15)] initial_state =
      Inr opened_state \<and>
    map (face_avg_ear \<circ> fst) [(closed_face, 10 :: real), (open_face, 10.15)] =
      map (Inr \<circ> Fin) [0, 1] \<and>
    ear_buffer opened_state = [Fin 0, Fin 1])"
proof -
  have W: "0 < SMOOTHING_WINDOW default_config" "SMOOTHING_WINDOW default_config = 5"
    by (simp_all add: default_config_def)
  have m: "map (face_avg_ear \<circ> fst) [(closed_face, 10 :: real), (open_face, 10.15)] =
      map (Inr \<circ> Fin) [0, 1]"
    by (simp add: closed_face_avg open_face_avg)
  have a: "smoothed (foldl (deque_append (SMOOTHING_WINDOW default_config)) []
                (map Fin [1, 2, 3])) = Fin 2"
    using conjunct1 [OF conjunct2 [OF smoothed_is_mean_of_last_window [OF W(1), of "[1, 2, 3]"]]]
      W(2) by simp
  have b: "smoothed (foldl (deque_append (SMOOTHING_WINDOW default_config)) []
                (map Fin [1, 2, 3, 4, 5, 6, 7])) = Fin 5"
    using conjunct1 [OF conjunct2 [OF conjunct2
          [OF smoothed_is_mean_of_last_window [OF W(1), of "[1, 2, 3, 4, 5, 6, 7]"]]]]
      W(2) by simp
  have c: "ear_buffer opened_state = [Fin 0, Fin 1]"
    using smoothed_is_mean_of_last_window [OF W(1), of "[0, 1]"
        "[(closed_face, 10), (open_face, 10.15)]" opened_state] two_faces_run m W(2)
    by (simp add: deque_append_def)
  from W a b c m two_faces_run show ?thesis by simp
qed

text \<open>
  C6. In an iteration of either variant in which the face detector returns no face, the
  globals (the blink state, the close start time, the blink count and the smoothing
  buffer) are left as they were, the action is still sampled, and one log record, with
  that action and the held count, is appended.
\<close>

theorem no_face_holds_state:
  "(ret inp \<and> faces inp = [] \<longrightarrow>
      (\<exists>w'. main_iteration cfg inp w = Inr (\<not> quit_pressed (wait_key inp), w') \<and>
         globals w' = globals w \<and>
         blink_state (globals w') = blink_state (globals w) \<and>
         close_start_time (globals w') = close_start_time (globals w) \<and>
         blink_count (globals w') = blink_count (globals w) \<and>
         ear_buffer (globals w') = ear_buffer (globals w) \<and>
         log_file w' = log_file w @
           [main_record inp (sample_action (get_key_state inp)) (blink_count (globals w))])) \<and>
   (ret xinp \<and> faces xinp = [] \<longrightarrow>
      (\<exists>xw'. xbox_iteration cfg xinp xw = Inr (\<not> quit_pressed (wait_key xinp), xw') \<and>
         globals xw' = globals xw \<and>
         log_file xw' = log_file xw @
           [xbox_record xinp (sample_button (get_button xinp)) (blink_count (globals xw))]))"
  by (simp add: main_iteration_def xbox_iteration_def)

theorem no_face_holds_state_witness:
  "(ret no_face_input \<and> faces no_face_input = [] \<and>
    (\<exists>w'. main_iteration default_config no_face_input closed_world = Inr (True, w') \<and>
       globals w' = closed_state \<and>
       log_file w' = [''2024-12-23 13:48:05 - (640, 360) - W - 0'' @ [CHR 0x0A]])) \<and>
   (ret xbox_no_face_input \<and> faces xbox_no_face_input = [] \<and>
    (\<exists>xw'. xbox_iteration default_config xbox_no_face_input three_blinks_world =
              Inr (True, xw') \<and>
       globals xw' = globals three_blinks_world \<and>
       log_file xw' =
         [''2024-12-23 13:48:05 - (0.12, -0.46) - (0.00, 1.00) - A - 3'' @ [CHR 0x0A]]))"
proof -
  note inst = no_face_holds_state [of no_face_input default_config closed_world
      xbox_no_face_input three_blinks_world]
  have r: "ret no_face_input" "faces no_face_input = []"
    by (simp_all add: no_face_input_def)
  have q: "\<not> quit_pressed (wait_key no_face_input)"
    by (simp add: no_face_input_def quit_pressed_def)
  have a: "sample_action (get_key_state no_face_input) = ''W''"
    by (simp add: no_face_input_def sample_action_def key_map_def vk_defs)
  have l: "main_record no_face_input ''W'' 0 =
      ''2024-12-23 13:48:05 - (640, 360) - W - 0'' @ [CHR 0x0A]"
    by (simp add: main_record_def no_face_input_def str_coords_def str_int_def
        str_nat.simps digit_char_def)
  have g: "globals closed_world = closed_state" "log_file closed_world = []"
    "blink_count closed_state = 0"
    by (simp_all add: closed_world_def closed_state_def)
  have xr: "ret xbox_no_face_input" "faces xbox_no_face_input = []"
    by (simp_all add: xbox_no_face_input_def)
  have xq: "\<not> quit_pressed (wait_key xbox_no_face_input)"
    by (simp add: xbox_no_face_input_def quit_pressed_def)
  have xg: "log_file three_blinks_world = []" "blink_count (globals three_blinks_world) = 3"
    by (simp_all add: three_blinks_world_def)
  have 1: "\<exists>w'. main_iteration default_config no_face_input closed_world = Inr (True, w') \<and>
       globals w' = closed_state \<and>
       log_file w' = [''2024-12-23 13:48:05 - (640, 360) - W - 0'' @ [CHR 0x0A]]"
    using conjunct1 [OF inst] r q a l g by auto
  have 2: "\<exists>xw'. xbox_iteration default_config xbox_no_face_input three_blinks_world =
              Inr (True, xw') \<and>
       globals xw' = globals three_blinks_world \<and>
       log_file xw' =
         [''2024-12-23 13:48:05 - (0.12, -0.46) - (0.00, 1.00) - A - 3'' @ [CHR 0x0A]]"
    using conjunct2 [OF inst] xr xq xg xbox_example_button xbox_example_record by auto
  from r xr 1 2 show ?thesis by blast
qed

text \<open>
  C7. The blink count starts at 0 and never decreases: over any sequence of iterations,
  with or without detected faces, the count after the loop has run is at least the count
  before, and the count after a longer run is at least the count after any shorter run
  of the same inputs.
\<close>

theorem blink_count_monotone:
  "blink_count (globals initial_world) = 0 \<and>
   (main_loop cfg inps w = Inr (c1, w1) \<longrightarrow>
      blink_count (globals w) \<le> blink_count (globals w1)) \<and>
   (main_loop cfg inps w = Inr (c1, w1) \<and> main_loop cfg (inps @ rest) w = Inr (c2, w2) \<longrightarrow>
      blink_count (globals w1) \<le> blink_count (globals w2))"
proof -
  have 0: "blink_count (globals initial_world) = 0"
    by (simp add: initial_world_def initial_state_def)
  have 2: "main_loop cfg inps w = Inr (c1, w1) \<longrightarrow>
      blink_count (globals w) \<le> blink_count (globals w1)"
    using main_loop_count by blast
  have 3: "main_loop cfg inps w = Inr (c1, w1) \<and> main_loop cfg (inps @ rest) w = Inr (c2, w2) \<longrightarrow>
      blink_count (globals w1) \<le> blink_count (globals w2)"
  proof
    assume a: "main_loop cfg inps w = Inr (c1, w1) \<and> main_loop cfg (inps @ rest) w = Inr (c2, w2)"
    then have "main_loop cfg (inps @ rest) w =
        (if c1 then main_loop cfg rest w1 else Inr (False, w1))"
      by (simp add: main_loop_append)
    with a have m: "(if c1 then main_loop cfg rest w1 else Inr (False, w1)) = Inr (c2, w2)"
      by simp
    show "blink_count (globals w1) \<le> blink_count (globals w2)"
    proof (cases c1)
      case True
      with m have "main_loop cfg rest w1 = Inr (c2, w2)" by simp
      then show ?thesis by (rule main_loop_count)
    next
      case False
      with m show ?thesis by simp
    qed
  qed
  from 0 2 3 show ?thesis by blast
qed

theorem blink_count_monotone_witness:
  "main_loop default_config [one_face_input] closed_world = Inr (True, opened_world) \<and>
   main_loop default_config ([one_face_input] @ [no_face_input]) closed_world =
     Inr (True, held_world) \<and>
   blink_count (globals closed_world) \<le> blink_count (globals opened_world) \<and>
   blink_count (globals opened_world) \<le> blink_count (globals held_world)"
  using blink_count_monotone [of default_config "[one_face_input]" closed_world True
      opened_world "[no_face_input]" True held_world]
    main_loop_one main_loop_two
  by simp

text \<open>
  C10. One update of the blink state machine (one per face) raises the blink count by at
  most 1, and raises it only when it takes the CLOSED to OPEN branch. Hence the loop over
  the \<open>F\<close> faces of one frame raises it by at most \<open>F\<close>, and so does one iteration
  of either variant: between two consecutive log records of a run with at most one face
  per frame the count rises by at most 1.
\<close>

theorem blink_count_step_at_most_one:
  "(process_face cfg face st = Inr st' \<longrightarrow>
      (blink_count st' = blink_count st \<or> blink_count st' = blink_count st + 1) \<and>
      (blink_count st' \<noteq> blink_count st \<longrightarrow>
         blink_state st = 1 \<and> blink_state st' = 0 \<and>
         f64_gt (smoothed (ear_buffer st')) (EAR_THRESHOLD cfg))) \<and>
   (process_faces cfg fs start = Inr st'' \<longrightarrow>
      blink_count start \<le> blink_count st'' \<and>
      blink_count st'' \<le> blink_count start + int (length fs)) \<and>
   (main_iteration cfg inp w = Inr (c, w') \<longrightarrow>
      blink_count (globals w) \<le> blink_count (globals w') \<and>
      blink_count (globals w') \<le> blink_count (globals w) + int (length (faces inp)) \<and>
      (length (faces inp) \<le> 1 \<longrightarrow> blink_count (globals w') \<le> blink_count (globals w) + 1)) \<and>
   (xbox_iteration cfg xinp xw = Inr (xc, xw') \<longrightarrow>
      blink_count (globals xw) \<le> blink_count (globals xw') \<and>
      blink_count (globals xw') \<le> blink_count (globals xw) + int (length (faces xinp)) \<and>
      (length (faces xinp) \<le> 1 \<longrightarrow> blink_count (globals xw') \<le> blink_count (globals xw) + 1))"
proof -
  have 1: "process_face cfg face st = Inr st' \<longrightarrow>
      (blink_count st' = blink_count st \<or> blink_count st' = blink_count st + 1) \<and>
      (blink_count st' \<noteq> blink_count st \<longrightarrow>
         blink_state st = 1 \<and> blink_state st' = 0 \<and>
         f64_gt (smoothed (ear_buffer st')) (EAR_THRESHOLD cfg))"
    using process_face_count process_face_count_cause by blast
  have 2: "process_faces cfg fs start = Inr st'' \<longrightarrow>
      blink_count start \<le> blink_count st'' \<and>
      blink_count st'' \<le> blink_count start + int (length fs)"
    using process_faces_count by blast
  have 3: "main_iteration cfg inp w = Inr (c, w') \<longrightarrow>
      blink_count (globals w) \<le> blink_count (globals w') \<and>
      blink_count (globals w') \<le> blink_count (globals w) + int (length (faces inp)) \<and>
      (length (faces inp) \<le> 1 \<longrightarrow> blink_count (globals w') \<le> blink_count (globals w) + 1)"
  proof
    assume "main_iteration cfg inp w = Inr (c, w')"
    from main_iteration_count [OF this]
    show "blink_count (globals w) \<le> blink_count (globals w') \<and>
      blink_count (globals w') \<le> blink_count (globals w) + int (length (faces inp)) \<and>
      (length (faces inp) \<le> 1 \<longrightarrow> blink_count (globals w') \<le> blink_count (globals w) + 1)"
      by auto
  qed
  have 4: "xbox_iteration cfg xinp xw = Inr (xc, xw') \<longrightarrow>
      blink_count (globals xw) \<le> blink_count (globals xw') \<and>
      blink_count (globals xw') \<le> blink_count (globals xw) + int (length (faces xinp)) \<and>
      (length (faces xinp) \<le> 1 \<longrightarrow> blink_count (globals xw') \<le> blink_count (globals xw) + 1)"
  proof
    assume "xbox_iteration cfg xinp xw = Inr (xc, xw')"
    from xbox_iteration_count [OF this]
    show "blink_count (globals xw) \<le> blink_count (globals xw') \<and>
      blink_count (globals xw') \<le> blink_count (globals xw) + int (length (faces xinp)) \<and>
      (length (faces xinp) \<le> 1 \<longrightarrow> blink_count (globals xw') \<le> blink_count (globals xw) + 1)"
      by auto
  qed
  from 1 2 3 4 show ?thesis by blast
qed

theorem blink_count_step_at_most_one_witness:
  "(process_face default_config (open_face, 10.15) closed_state = Inr opened_state \<and>
    blink_count opened_state \<noteq> blink_count closed_state \<and>
    blink_count opened_state = blink_count closed_state + 1 \<and>
    blink_state closed_state = 1 \<and> blink_state opened_state = 0) \<and>
   (process_faces default_config [(closed_face, 10), (open_face, 10.15)] initial_state =
      Inr opened_state \<and>
    blink_count opened_state \<le>
      blink_count initial_state + int (length [(closed_face, 10 :: real), (open_face, 10.15)])) \<and>
   (main_iteration default_config one_face_input closed_world = Inr (True, opened_world) \<and>
    length (faces one_face_input) \<le> 1 \<and>
    blink_count (globals opened_world) \<le> blink_count (globals closed_world) + 1) \<and>
   (xbox_iteration default_config xbox_one_face_input closed_world =
      Inr (True, xbox_opened_world) \<and>
    length (faces xbox_one_face_input) \<le> 1 \<and>
    blink_count (globals xbox_opened_world) \<le> blink_count (globals closed_world) + 1)"
proof -
  note inst = blink_count_step_at_most_one [where cfg = default_config
        and face = "(open_face, 10.15)" and st = closed_state and st' = opened_state
        and fs = "[(closed_face, 10), (open_face, 10.15)]" and start = initial_state
        and st'' = opened_state
        and inp = one_face_input and w = closed_world and c = True and w' = opened_world
        and xinp = xbox_one_face_input and xw = closed_world and xc = True
        and xw' = xbox_opened_world]
  have n: "blink_count opened_state \<noteq> blink_count closed_state"
    by (simp add: opened_state_def closed_state_def)
  have l: "length (faces one_face_input) \<le> 1" "length (faces xbox_one_face_input) \<le> 1"
    by (simp_all add: one_face_input_def no_face_input_def xbox_one_face_input_def
        xbox_no_face_input_def)
  have 1: "blink_count opened_state = blink_count closed_state + 1 \<and>
    blink_state closed_state = 1 \<and> blink_state opened_state = 0"
    using conjunct1 [OF inst] opening_step n by blast
  have 2: "blink_count opened_state \<le>
      blink_count initial_state + int (length [(closed_face, 10 :: real), (open_face, 10.15)])"
    using conjunct1 [OF conjunct2 [OF inst]] two_faces_run by blast
  have 3: "blink_count (globals opened_world) \<le> blink_count (globals closed_world) + 1"
    using conjunct1 [OF conjunct2 [OF conjunct2 [OF inst]]] main_one_face_step l(1) by blast
  have 4: "blink_count (globals xbox_opened_world) \<le> blink_count (globals closed_world) + 1"
    using conjunct2 [OF conjunct2 [OF conjunct2 [OF inst]]] xbox_one_face_step l(2) by blast
  from 1 2 3 4 n l opening_step two_faces_run main_one_face_step xbox_one_face_step
  show ?thesis by blast
qed

text \<open>
  C9. In the gamepad variant, when no gamepad is present at startup, the function reports
  it ("No controllers connected.") and returns at once: whatever frames the camera would
  deliver, none is read, no log record is written, the globals are untouched, and the
  result says the loop is not running.
\<close>

theorem no_gamepad_no_loop:
  "\<exists>w'. xbox_track_actions cfg 0 inps w = Inr (False, w') \<and>
         stdout w' = stdout w @ [''No controllers connected.''] \<and>
         frames_read w' = frames_read w \<and> log_file w' = log_file w \<and>
         globals w' = globals w \<and>
         (w = initial_world \<longrightarrow> frames_read w' = 0 \<and> log_file w' = [])"
  by (simp add: xbox_track_actions_def initial_world_def)

theorem no_gamepad_no_loop_witness:
  "\<exists>w'. xbox_track_actions default_config 0 [xbox_no_face_input] initial_world =
           Inr (False, w') \<and>
         stdout w' = [''No controllers connected.''] \<and> frames_read w' = 0 \<and> log_file w' = []"
  using no_gamepad_no_loop [of default_config "[xbox_no_face_input]" initial_world]
  by (auto simp add: initial_world_def)

text \<open>
  C1 (the code departs from the claim). With no mouse button pressed and the keys W and A
  both held, the loop over the key map, which has no \<^verbatim>\<open>break\<close>, ends with the label
  of the last pressed key of the enumeration order, "A"; the first pressed key is W.
\<close>

theorem two_keys_last_wins:
  "sample_action w_and_a_pressed = ''A'' \<and> spec_action w_and_a_pressed = ''W''"
  by (simp add: sample_action_def spec_action_def w_and_a_pressed_def key_map_def vk_defs)

text \<open>
  C2, as the claim states it, fails: for an eye outline whose corners \<open>p0\<close> and \<open>p3\<close>
  coincide the ratio computation returns infinity without raising, and the per-face
  update stores it in the smoothing buffer.
\<close>

theorem degenerate_eye_not_detected:
  "length degenerate_eye = 6 \<and>
   euclidean (degenerate_eye ! 0) (degenerate_eye ! 3) = 0 \<and>
   calculate_ear degenerate_eye = Inr PInf \<and>
   process_face default_config (degenerate_face, 10) initial_state =
     Inr (initial_state\<lparr>ear_buffer := [PInf]\<rparr>)"
  by (simp add: degenerate_eye_def calculate_ear_def euclidean_def process_face_def
      face_avg_ear_eq degenerate_face_def default_config_def initial_state_def
      deque_append_def smoothed_def py_sum_def rise_and_fall_def)

text \<open>
  C2, amended. For every 6-point eye outline with \<open>dist(p0, p3) \<noteq> 0\<close> the ratio
  computation returns a finite non-negative value. For \<open>dist(p0, p3) = 0\<close> nothing is
  detected: it returns infinity, or NaN when the numerator is 0 as well, without
  raising; and the per-face update of a face with such an eye does not skip the sample:
  it appends a value that is not finite to the smoothing buffer.
\<close>

theorem degenerate_eye_gives_nonfinite_sample:
  assumes "length eye = 6"
  shows "(euclidean (eye ! 0) (eye ! 3) \<noteq> 0 \<longrightarrow>
            (\<exists>r. calculate_ear eye = Inr (Fin r) \<and> 0 \<le> r)) \<and>
         (euclidean (eye ! 0) (eye ! 3) = 0 \<longrightarrow>
            calculate_ear eye = Inr PInf \<or> calculate_ear eye = Inr NaN) \<and>
         ((lm 36 = lm 39 \<or> lm 42 = lm 45) \<and> 0 < SMOOTHING_WINDOW cfg \<longrightarrow>
            (\<exists>st'. process_face cfg (lm, now) st = Inr st' \<and>
                   ear_buffer st' \<noteq> [] \<and> \<not> is_finite (last (ear_buffer st'))))"
proof -
  have "(lm 36 = lm 39 \<or> lm 42 = lm 45) \<and> 0 < SMOOTHING_WINDOW cfg \<longrightarrow>
            (\<exists>st'. process_face cfg (lm, now) st = Inr st' \<and>
                   ear_buffer st' \<noteq> [] \<and> \<not> is_finite (last (ear_buffer st')))"
  proof
    assume a: "(lm 36 = lm 39 \<or> lm 42 = lm 45) \<and> 0 < SMOOTHING_WINDOW cfg"
    then obtain x where x: "face_avg_ear lm = Inr x" "\<not> is_finite x"
      using face_avg_ear_degenerate by blast
    from a obtain st' where st': "process_face cfg (lm, now) st = Inr st'"
      using process_face_total by blast
    from process_face_buffer [OF st'] x(1)
    have "ear_buffer st' = deque_append (SMOOTHING_WINDOW cfg) (ear_buffer st) x" by simp
    with a x(2) have "ear_buffer st' \<noteq> [] \<and> \<not> is_finite (last (ear_buffer st'))"
      by (simp add: deque_append_nonempty deque_append_last)
    with st' show "\<exists>st'. process_face cfg (lm, now) st = Inr st' \<and>
                   ear_buffer st' \<noteq> [] \<and> \<not> is_finite (last (ear_buffer st'))" by blast
  qed
  with calculate_ear_cases [OF assms] show ?thesis by blast
qed

theorem degenerate_eye_gives_nonfinite_sample_witness:
  "(length open_eye = 6 \<and> euclidean (open_eye ! 0) (open_eye ! 3) \<noteq> 0 \<and>
    (\<exists>r. calculate_ear open_eye = Inr (Fin r) \<and> 0 \<le> r)) \<and>
   (length degenerate_eye = 6 \<and> euclidean (degenerate_eye ! 0) (degenerate_eye ! 3) = 0 \<and>
    (calculate_ear degenerate_eye = Inr PInf \<or> calculate_ear degenerate_eye = Inr NaN)) \<and>
   (degenerate_face 36 = degenerate_face 39 \<and> 0 < SMOOTHING_WINDOW default_config \<and>
    (\<exists>st'. process_face default_config (degenerate_face, 10) initial_state = Inr st' \<and>
           ear_buffer st' \<noteq> [] \<and> \<not> is_finite (last (ear_buffer st'))))"
proof -
  have o: "length open_eye = 6" "euclidean (open_eye ! 0) (open_eye ! 3) \<noteq> 0"
    by (simp_all add: open_eye_def euclidean_def)
  have d: "length degenerate_eye = 6"
    "euclidean (degenerate_eye ! 0) (degenerate_eye ! 3) = 0"
    by (simp_all add: degenerate_eye_def euclidean_def)
  have f: "degenerate_face 36 = degenerate_face 39" "0 < SMOOTHING_WINDOW default_config"
    by (simp_all add: degenerate_face_def default_config_def)
  show ?thesis
    using degenerate_eye_gives_nonfinite_sample [OF o(1)]
      degenerate_eye_gives_nonfinite_sample
        [OF d(1), of degenerate_face default_config 10 initial_state]
      o d f
    by simp
qed

text \<open>
  C8. Every iteration of the gamepad variant that gets a frame appends the record
  \<^verbatim>\<open>"<timestamp> - (<l_x>, <l_y>) - (<r_x>, <r_y>) - <action> - <blink_count>\n"\<close>,
  each stick component rendered by the two-decimal format: an optional minus sign,
  digits, a point and exactly two digits, the numeral within half a hundredth of the
  value. With the axes (0.123, -0.456) and (0.0, 1.0), the button A held and a blink count
  of 3 the record is \<^verbatim>\<open>"... - (0.12, -0.46) - (0.00, 1.00) - A - 3"\<close>.
\<close>

theorem gamepad_record_two_decimals:
  assumes "ret inp" and "xbox_iteration cfg inp w = Inr (c, w')"
  shows "log_file w' = log_file w @
           [timestamp inp @ '' - (''
              @ format_2f (get_axis inp 0) @ '', '' @ format_2f (get_axis inp 1) @ '') - (''
              @ format_2f (get_axis inp 4) @ '', '' @ format_2f (get_axis inp 5) @ '') - ''
              @ sample_button (get_button inp) @ '' - ''
              @ str_int (blink_count (globals w')) @ [CHR 0x0A]] \<and>
         (\<exists>ip d1 d2.
            format_2f x = (if x < 0 then ''-'' else '''') @ ip @ ''.'' @ [d1, d2] \<and>
            ip \<noteq> [] \<and> (\<forall>c \<in> set ip. is_digit c) \<and> is_digit d1 \<and> is_digit d2 \<and>
            \<bar>real (dec_val ip) + real (digit_val d1) / 10 + real (digit_val d2) / 100 - \<bar>x\<bar>\<bar>
              \<le> 1/200) \<and>
         xbox_iteration default_config xbox_no_face_input three_blinks_world =
           Inr (True, three_blinks_logged) \<and>
         log_file three_blinks_logged =
           [''2024-12-23 13:48:05 - (0.12, -0.46) - (0.00, 1.00) - A - 3'' @ [CHR 0x0A]]"
proof -
  from xbox_iteration_InrD [OF assms(2)] assms(1)
  obtain st where "w' = w\<lparr>frames_read := frames_read w + 1, globals := st,
                    log_file := log_file w @
                      [xbox_record inp (sample_button (get_button inp)) (blink_count st)]\<rparr>"
    by blast
  then have "log_file w' = log_file w @
      [xbox_record inp (sample_button (get_button inp)) (blink_count (globals w'))]"
    by simp
  then have 1: "log_file w' = log_file w @
           [timestamp inp @ '' - (''
              @ format_2f (get_axis inp 0) @ '', '' @ format_2f (get_axis inp 1) @ '') - (''
              @ format_2f (get_axis inp 4) @ '', '' @ format_2f (get_axis inp 5) @ '') - ''
              @ sample_button (get_button inp) @ '' - ''
              @ str_int (blink_count (globals w')) @ [CHR 0x0A]]"
    by (simp add: xbox_record_def)
  have 3: "log_file three_blinks_logged =
           [''2024-12-23 13:48:05 - (0.12, -0.46) - (0.00, 1.00) - A - 3'' @ [CHR 0x0A]]"
    by (simp add: three_blinks_logged_def)
  from 1 format_2f_two_decimals [of x] xbox_example_step 3 show ?thesis by blast
qed

theorem gamepad_record_two_decimals_witness:
  "ret xbox_no_face_input \<and>
   xbox_iteration default_config xbox_no_face_input three_blinks_world =
     Inr (True, three_blinks_logged) \<and>
   get_axis xbox_no_face_input 0 = 0.123 \<and> get_axis xbox_no_face_input 1 = -0.456 \<and>
   get_axis xbox_no_face_input 4 = 0.0 \<and> get_axis xbox_no_face_input 5 = 1.0 \<and>
   sample_button (get_button xbox_no_face_input) = ''A'' \<and>
   blink_count (globals three_blinks_logged) = 3 \<and>
   log_file three_blinks_logged = log_file three_blinks_world @
     [timestamp xbox_no_face_input @ '' - (''
        @ format_2f 0.123 @ '', '' @ format_2f (-0.456) @ '') - (''
        @ format_2f 0.0 @ '', '' @ format_2f 1.0 @ '') - ''
        @ ''A'' @ '' - '' @ str_int 3 @ [CHR 0x0A]]"
proof -
  have r: "ret xbox_no_face_input" by (simp add: xbox_no_face_input_def)
  have a: "get_axis xbox_no_face_input 0 = 0.123" "get_axis xbox_no_face_input 1 = -0.456"
    "get_axis xbox_no_face_input 4 = 0.0" "get_axis xbox_no_face_input 5 = 1.0"
    by (simp_all add: xbox_no_face_input_def)
  have c: "blink_count (globals three_blinks_logged) = 3"
    by (simp add: three_blinks_logged_def three_blinks_world_def)
  have "log_file three_blinks_logged = log_file three_blinks_world @
     [timestamp xbox_no_face_input @ '' - (''
        @ format_2f (get_axis xbox_no_face_input 0) @ '', ''
        @ format_2f (get_axis xbox_no_face_input 1) @ '') - (''
        @ format_2f (get_axis xbox_no_face_input 4) @ '', ''
        @ format_2f (get_axis xbox_no_face_input 5) @ '') - ''
        @ sample_button (get_button xbox_no_face_input) @ '' - ''
        @ str_int (blink_count (globals three_blinks_logged)) @ [CHR 0x0A]]"
    using gamepad_record_two_decimals [OF r xbox_example_step] by (rule conjunct1)
  then have "log_file three_blinks_logged = log_file three_blinks_world @
     [timestamp xbox_no_face_input @ '' - (''
        @ format_2f 0.123 @ '', '' @ format_2f (-0.456) @ '') - (''
        @ format_2f 0.0 @ '', '' @ format_2f 1.0 @ '') - ''
        @ ''A'' @ '' - '' @ str_int 3 @ [CHR 0x0A]]"
    by (simp only: a c xbox_example_button)
  with r xbox_example_step a c xbox_example_button show ?thesis by (simp only: simp_thms)
qed

end
